theory Spec2Isabelle
  imports Main "HOL-Library.Word" "HOL-Library.Stream"
begin

unbundle bit_operations_syntax

section \<open>Buffers, errors and the encrypted-data structure\<close>

text \<open>
  The functions modelled here are those of the backend's crypto module:
  \<open>encryption.ts\<close> (\<open>encrypt\<close>, \<open>decrypt\<close>, \<open>serializeEncrypted\<close>,
  \<open>deserializeEncrypted\<close>, \<open>generateDEK\<close>), \<open>keyManager.ts\<close> (\<open>deriveKEK\<close>, \<open>wrapDEK\<close>,
  \<open>unwrapDEK\<close>, \<open>generateWrappedDEK\<close>, \<open>rotateKEK\<close>), \<open>keyRotation.ts\<close>
  (\<open>rotateUserKEK\<close>) and \<open>recovery.ts\<close> (\<open>generateRecoveryCodes\<close>, \<open>hashRecoveryCode\<close>,
  \<open>verifyRecoveryCode\<close>). A Node \<open>Buffer\<close> is a sequence of bytes.
\<close>

type_synonym byte = "8 word"
type_synonym buffer = "byte list"

text \<open>
  Every \<open>throw\<close> and every rejected promise of the source is a value of this type:
  \<^item> \<open>KeyLengthError\<close>: \<open>Error('Key must be 32 bytes (256 bits)')\<close>, thrown by
    \<open>encrypt\<close> and \<open>decrypt\<close>;
  \<^item> \<open>DecryptionFailed\<close>: \<open>Error('Decryption failed: invalid ciphertext or tag')\<close>,
    thrown by the \<open>catch\<close> block of \<open>decrypt\<close>;
  \<^item> \<open>InvalidFormat\<close>: \<open>Error('Invalid encrypted data format')\<close>, thrown by
    \<open>deserializeEncrypted\<close>;
  \<^item> \<open>InvalidIV\<close> and \<open>InvalidAuthTag\<close>: what the \<open>crypto\<close> library throws from
    \<open>createDecipheriv\<close> (empty nonce) and \<open>setAuthTag\<close> (a tag length GCM does not
    allow); \<open>decrypt\<close> calls both outside its \<open>try\<close> block, so they pass through;
  \<^item> \<open>Argon2Error\<close>: a rejection by the \<open>argon2\<close> library.
  The source has no other error: in particular none that is specific to key rotation.
\<close>

datatype error =
  KeyLengthError | DecryptionFailed | InvalidFormat | InvalidIV | InvalidAuthTag | Argon2Error

definition AES_KEY_SIZE :: nat where "AES_KEY_SIZE = 32"
definition AES_NONCE_SIZE :: nat where "AES_NONCE_SIZE = 12"
definition AES_TAG_SIZE :: nat where "AES_TAG_SIZE = 16"

record EncryptedData =
  ciphertext :: buffer
  nonce :: buffer
  tag :: buffer

text \<open>
  \<open>buf.subarray(start, end)\<close> for \<open>0 \<le> start\<close> and \<open>0 \<le> end\<close>: the bytes from
  \<open>start\<close> up to, not including, \<open>end\<close>, both clamped to the length of the buffer;
  empty when \<open>end \<le> start\<close>. \<open>deserializeEncrypted\<close> only calls it behind its length
  guard, where no index is negative.
\<close>

definition subarray :: "buffer \<Rightarrow> nat \<Rightarrow> nat \<Rightarrow> buffer" where
  "subarray data start end = take (end - start) (drop start data)"

definition serializeEncrypted :: "EncryptedData \<Rightarrow> buffer" where
  "serializeEncrypted encrypted = concat [nonce encrypted, ciphertext encrypted, tag encrypted]"

definition deserializeEncrypted :: "buffer \<Rightarrow> error + EncryptedData" where
  "deserializeEncrypted data =
     (if length data < AES_NONCE_SIZE + AES_TAG_SIZE then Inl InvalidFormat
      else Inr \<lparr> ciphertext = subarray data AES_NONCE_SIZE (length data - AES_TAG_SIZE),
                 nonce = subarray data 0 AES_NONCE_SIZE,
                 tag = subarray data (length data - AES_TAG_SIZE) (length data) \<rparr>)"

section \<open>The secure random source\<close>

text \<open>
  \<open>crypto.randomBytes(n)\<close> reads the next \<open>n\<close> bytes of the operating system's
  random source. The source is an unending stream of bytes that the model passes along:
  a function that draws from it returns what is left.
\<close>

type_synonym random_source = "byte stream"

definition randomBytes :: "nat \<Rightarrow> random_source \<Rightarrow> buffer \<times> random_source" where
  "randomBytes n g = (stake n g, sdrop n g)"

section \<open>The cipher \<open>aes-256-gcm\<close>\<close>

text \<open>
  \<open>crypto.createCipheriv('aes-256-gcm', key, nonce)\<close> names the algorithm of
  FIPS 197 (AES with a 256-bit key) in the Galois/Counter mode of NIST SP 800-38D, with
  no additional authenticated data. A state is 16 bytes, column by column. A message is
  shorter than the \<open>2^36 - 32\<close> bytes the mode allows, as every Node buffer is.
\<close>

definition SBOX :: "byte list" where
  "SBOX =
    [
     0x63, 0x7c, 0x77, 0x7b, 0xf2, 0x6b, 0x6f, 0xc5, 0x30, 0x01, 0x67, 0x2b, 0xfe, 0xd7, 0xab, 0x76,
     0xca, 0x82, 0xc9, 0x7d, 0xfa, 0x59, 0x47, 0xf0, 0xad, 0xd4, 0xa2, 0xaf, 0x9c, 0xa4, 0x72, 0xc0,
     0xb7, 0xfd, 0x93, 0x26, 0x36, 0x3f, 0xf7, 0xcc, 0x34, 0xa5, 0xe5, 0xf1, 0x71, 0xd8, 0x31, 0x15,
     0x04, 0xc7, 0x23, 0xc3, 0x18, 0x96, 0x05, 0x9a, 0x07, 0x12, 0x80, 0xe2, 0xeb, 0x27, 0xb2, 0x75,
     0x09, 0x83, 0x2c, 0x1a, 0x1b, 0x6e, 0x5a, 0xa0, 0x52, 0x3b, 0xd6, 0xb3, 0x29, 0xe3, 0x2f, 0x84,
     0x53, 0xd1, 0x00, 0xed, 0x20, 0xfc, 0xb1, 0x5b, 0x6a, 0xcb, 0xbe, 0x39, 0x4a, 0x4c, 0x58, 0xcf,
     0xd0, 0xef, 0xaa, 0xfb, 0x43, 0x4d, 0x33, 0x85, 0x45, 0xf9, 0x02, 0x7f, 0x50, 0x3c, 0x9f, 0xa8,
     0x51, 0xa3, 0x40, 0x8f, 0x92, 0x9d, 0x38, 0xf5, 0xbc, 0xb6, 0xda, 0x21, 0x10, 0xff, 0xf3, 0xd2,
     0xcd, 0x0c, 0x13, 0xec, 0x5f, 0x97, 0x44, 0x17, 0xc4, 0xa7, 0x7e, 0x3d, 0x64, 0x5d, 0x19, 0x73,
     0x60, 0x81, 0x4f, 0xdc, 0x22, 0x2a, 0x90, 0x88, 0x46, 0xee, 0xb8, 0x14, 0xde, 0x5e, 0x0b, 0xdb,
     0xe0, 0x32, 0x3a, 0x0a, 0x49, 0x06, 0x24, 0x5c, 0xc2, 0xd3, 0xac, 0x62, 0x91, 0x95, 0xe4, 0x79,
     0xe7, 0xc8, 0x37, 0x6d, 0x8d, 0xd5, 0x4e, 0xa9, 0x6c, 0x56, 0xf4, 0xea, 0x65, 0x7a, 0xae, 0x08,
     0xba, 0x78, 0x25, 0x2e, 0x1c, 0xa6, 0xb4, 0xc6, 0xe8, 0xdd, 0x74, 0x1f, 0x4b, 0xbd, 0x8b, 0x8a,
     0x70, 0x3e, 0xb5, 0x66, 0x48, 0x03, 0xf6, 0x0e, 0x61, 0x35, 0x57, 0xb9, 0x86, 0xc1, 0x1d, 0x9e,
     0xe1, 0xf8, 0x98, 0x11, 0x69, 0xd9, 0x8e, 0x94, 0x9b, 0x1e, 0x87, 0xe9, 0xce, 0x55, 0x28, 0xdf,
     0x8c, 0xa1, 0x89, 0x0d, 0xbf, 0xe6, 0x42, 0x68, 0x41, 0x99, 0x2d, 0x0f, 0xb0, 0x54, 0xbb, 0x16]"

definition sub_byte :: "byte \<Rightarrow> byte" where
  "sub_byte b = SBOX ! unat b"

text \<open>Multiplication by \<open>x\<close> in GF(2^8) modulo \<open>x^8 + x^4 + x^3 + x + 1\<close>.\<close>

definition xtime :: "byte \<Rightarrow> byte" where
  "xtime b = (if bit b 7 then push_bit 1 b XOR 0x1b else push_bit 1 b)"

definition xor_bytes :: "buffer \<Rightarrow> buffer \<Rightarrow> buffer" where
  "xor_bytes xs ys = map2 (XOR) xs ys"

definition rot_word :: "buffer \<Rightarrow> buffer" where
  "rot_word w = tl w @ [hd w]"

definition sub_word :: "buffer \<Rightarrow> buffer" where
  "sub_word w = map sub_byte w"

definition RCON :: "byte list" where
  "RCON = [0x01, 0x02, 0x04, 0x08, 0x10, 0x20, 0x40]"

text \<open>
  The key schedule for \<open>Nk = 8\<close>: word \<open>i\<close> (for \<open>8 \<le> i < 60\<close>) from words \<open>i - 1\<close>
  and \<open>i - 8\<close>.
\<close>

definition key_expansion_step :: "buffer list \<Rightarrow> nat \<Rightarrow> buffer list" where
  "key_expansion_step w i =
     (let prev = w ! (i - 1);
          t = (if i mod 8 = 0
               then xor_bytes (sub_word (rot_word prev)) [RCON ! (i div 8 - 1), 0, 0, 0]
               else if i mod 8 = 4 then sub_word prev
               else prev)
      in w @ [xor_bytes (w ! (i - 8)) t])"

definition words_of :: "buffer \<Rightarrow> buffer list" where
  "words_of bs = map (\<lambda>i. take 4 (drop (4 * i) bs)) [0..<length bs div 4]"

definition key_expansion :: "buffer \<Rightarrow> buffer list" where
  "key_expansion key = foldl key_expansion_step (words_of key) [8..<60]"

text \<open>Every word of a key schedule is four bytes.\<close>

definition words4 :: "buffer list \<Rightarrow> bool" where
  "words4 w = (\<forall>x \<in> set w. length x = 4)"

definition round_key :: "buffer list \<Rightarrow> nat \<Rightarrow> buffer" where
  "round_key w r = concat (take 4 (drop (4 * r) w))"

definition shift_rows :: "buffer \<Rightarrow> buffer" where
  "shift_rows s = map (\<lambda>i. s ! i) [0, 5, 10, 15, 4, 9, 14, 3, 8, 13, 2, 7, 12, 1, 6, 11]"

fun mix_columns :: "buffer \<Rightarrow> buffer" where
  "mix_columns (a0 # a1 # a2 # a3 # rest) =
     [xtime a0 XOR (xtime a1 XOR a1) XOR a2 XOR a3,
      a0 XOR xtime a1 XOR (xtime a2 XOR a2) XOR a3,
      a0 XOR a1 XOR xtime a2 XOR (xtime a3 XOR a3),
      (xtime a0 XOR a0) XOR a1 XOR a2 XOR xtime a3] @ mix_columns rest"
| "mix_columns rest = []"

definition aes_round :: "buffer list \<Rightarrow> buffer \<Rightarrow> nat \<Rightarrow> buffer" where
  "aes_round w s r = xor_bytes (mix_columns (shift_rows (map sub_byte s))) (round_key w r)"

definition cipher :: "buffer list \<Rightarrow> buffer \<Rightarrow> buffer" where
  "cipher w block =
     xor_bytes
       (shift_rows (map sub_byte
          (foldl (aes_round w) (xor_bytes block (round_key w 0)) [1..<14])))
       (round_key w 14)"

definition aes256_encrypt_block :: "buffer \<Rightarrow> buffer \<Rightarrow> buffer" where
  "aes256_encrypt_block key block = cipher (key_expansion key) block"

text \<open>
  A 128-bit block read as a number, most significant byte first, and written back.
\<close>

definition be_nat :: "buffer \<Rightarrow> nat" where
  "be_nat bs = foldl (\<lambda>a b. 256 * a + unat b) 0 bs"

definition be_bytes :: "nat \<Rightarrow> nat \<Rightarrow> buffer" where
  "be_bytes n v = map (\<lambda>i. of_nat (v div 256 ^ (n - 1 - i) mod 256)) [0..<n]"

text \<open>
  Multiplication in GF(2^128) as SP 800-38D gives it (Algorithm 1): bit \<open>i\<close> of a block
  counts from the left, so it is bit \<open>127 - i\<close> of the number, and \<open>R\<close> is \<open>11100001\<close>
  followed by 120 zeros.
\<close>

definition gf128_mult_step :: "nat \<Rightarrow> nat \<times> nat \<Rightarrow> nat \<Rightarrow> nat \<times> nat" where
  "gf128_mult_step x zv i =
     (case zv of (z, v) \<Rightarrow>
       (if bit x (127 - i) then z XOR v else z,
        if odd v then v div 2 XOR 0xe1000000000000000000000000000000 else v div 2))"

definition gf128_mult :: "nat \<Rightarrow> nat \<Rightarrow> nat" where
  "gf128_mult x y = fst (foldl (gf128_mult_step x) (0, y) [0..<128])"

definition blocks16 :: "buffer \<Rightarrow> buffer list" where
  "blocks16 bs = map (\<lambda>i. take 16 (drop (16 * i) bs)) [0..<(length bs + 15) div 16]"

definition pad16 :: "buffer \<Rightarrow> buffer" where
  "pad16 bs = bs @ replicate ((16 - length bs mod 16) mod 16) 0"

definition ghash :: "nat \<Rightarrow> buffer \<Rightarrow> nat" where
  "ghash h data = foldl (\<lambda>y b. gf128_mult (y XOR be_nat b) h) 0 (blocks16 data)"

text \<open>The counter: the last four bytes of the block, incremented modulo \<open>2^32\<close>.\<close>

definition inc32 :: "buffer \<Rightarrow> buffer" where
  "inc32 cb = take 12 cb @ be_bytes 4 ((be_nat (drop 12 cb) + 1) mod 2 ^ 32)"

function gctr :: "buffer \<Rightarrow> buffer \<Rightarrow> buffer \<Rightarrow> buffer" where
  "gctr key cb x =
     (if x = [] then []
      else xor_bytes (take 16 x) (aes256_encrypt_block key cb) @ gctr key (inc32 cb) (drop 16 x))"
  by pat_completeness auto
termination
  by (relation "measure (\<lambda>(key, cb, x). length x)") auto

declare gctr.simps [simp del]

definition gcm_hash_subkey :: "buffer \<Rightarrow> nat" where
  "gcm_hash_subkey key = be_nat (aes256_encrypt_block key (replicate 16 0))"

text \<open>The pre-counter block: a 96-bit nonce is used as it is, any other is hashed.\<close>

definition gcm_j0 :: "buffer \<Rightarrow> buffer \<Rightarrow> buffer" where
  "gcm_j0 key iv =
     (if length iv = 12 then iv @ [0, 0, 0, 1]
      else be_bytes 16 (ghash (gcm_hash_subkey key) (pad16 iv @ be_bytes 16 (8 * length iv))))"

text \<open>
  What \<open>update\<close> and \<open>final\<close> return (the counter-mode encryption, the same function in
  both directions) and what \<open>getAuthTag\<close> returns (the 16-byte tag over the ciphertext).
\<close>

definition gcm_crypt :: "buffer \<Rightarrow> buffer \<Rightarrow> buffer \<Rightarrow> buffer" where
  "gcm_crypt key iv x = gctr key (inc32 (gcm_j0 key iv)) x"

definition gcm_tag :: "buffer \<Rightarrow> buffer \<Rightarrow> buffer \<Rightarrow> buffer" where
  "gcm_tag key iv c =
     xor_bytes
       (be_bytes 16 (ghash (gcm_hash_subkey key) (pad16 c @ be_bytes 16 (8 * length c))))
       (aes256_encrypt_block key (gcm_j0 key iv))"

text \<open>
  \<open>setAuthTag\<close> accepts the tag lengths of SP 800-38D (4, 8 and 12 to 16 bytes) and
  throws on any other; \<open>final\<close> compares a shorter tag with the leading bytes of the
  computed one.
\<close>

definition valid_gcm_tag_length :: "nat \<Rightarrow> bool" where
  "valid_gcm_tag_length n = (n = 4 \<or> n = 8 \<or> (12 \<le> n \<and> n \<le> 16))"

section \<open>\<open>encryption.ts\<close>\<close>

definition encrypt :: "buffer \<Rightarrow> buffer \<Rightarrow> random_source \<Rightarrow> error + EncryptedData \<times> random_source" where
  "encrypt plaintext key g =
     (if length key \<noteq> AES_KEY_SIZE then Inl KeyLengthError
      else case randomBytes AES_NONCE_SIZE g of (n, g') \<Rightarrow>
        Inr (\<lparr> ciphertext = gcm_crypt key n plaintext,
                nonce = n,
                tag = gcm_tag key n (gcm_crypt key n plaintext) \<rparr>, g'))"

definition decrypt :: "EncryptedData \<Rightarrow> buffer \<Rightarrow> error + buffer" where
  "decrypt encrypted key =
     (if length key \<noteq> AES_KEY_SIZE then Inl KeyLengthError
      else if nonce encrypted = [] then Inl InvalidIV
      else if \<not> valid_gcm_tag_length (length (tag encrypted)) then Inl InvalidAuthTag
      else if take (length (tag encrypted))
                (gcm_tag key (nonce encrypted) (ciphertext encrypted)) = tag encrypted
      then Inr (gcm_crypt key (nonce encrypted) (ciphertext encrypted))
      else Inl DecryptionFailed)"

definition generateDEK :: "random_source \<Rightarrow> buffer \<times> random_source" where
  "generateDEK g = randomBytes AES_KEY_SIZE g"

section \<open>The \<open>argon2\<close> library\<close>

text \<open>
  Argon2id is not part of the repository: the functions that call it take the library as
  an argument, and the theorems hold for every library (under the hypotheses they name).
  \<^item> \<open>hash_raw opts password salt\<close> is \<open>argon2.hash(password, {..., salt, raw: true})\<close>:
    the raw hash, or a rejection;
  \<^item> \<open>hash_encoded opts password salt\<close> is \<open>argon2.hash(password, {...})\<close> with the
    16-byte salt the library draws for itself: the encoded hash string;
  \<^item> \<open>verify_encoded digest password\<close> is \<open>argon2.verify(digest, password)\<close>: it
    resolves to \<open>true\<close> or \<open>false\<close>, and rejects when the digest cannot be read.
  The type is always \<open>argon2id\<close>.
\<close>

record argon2_options =
  memoryCost :: nat
  timeCost :: nat
  parallelism :: nat
  hashLength :: nat

record argon2_library =
  hash_raw :: "argon2_options \<Rightarrow> string \<Rightarrow> buffer \<Rightarrow> error + buffer"
  hash_encoded :: "argon2_options \<Rightarrow> string \<Rightarrow> buffer \<Rightarrow> error + string"
  verify_encoded :: "string \<Rightarrow> string \<Rightarrow> error + bool"

section \<open>\<open>keyManager.ts\<close>\<close>

record KEKParams =
  key :: buffer
  salt :: buffer

record DEK =
  key :: buffer
  wrapped :: EncryptedData

definition ARGON2_MEMORY :: nat where "ARGON2_MEMORY = 65536"
definition ARGON2_TIME_COST :: nat where "ARGON2_TIME_COST = 3"
definition ARGON2_PARALLELISM :: nat where "ARGON2_PARALLELISM = 4"
definition ARGON2_KEY_LENGTH :: nat where "ARGON2_KEY_LENGTH = 32"
definition SALT_SIZE :: nat where "SALT_SIZE = 16"

definition kek_options :: argon2_options where
  "kek_options = \<lparr> memoryCost = ARGON2_MEMORY, timeCost = ARGON2_TIME_COST,
                    parallelism = ARGON2_PARALLELISM, hashLength = ARGON2_KEY_LENGTH \<rparr>"

text \<open>
  \<open>salt || crypto.randomBytes(SALT_SIZE)\<close>: a buffer is an object and so always truthy,
  even when empty; only an omitted salt draws a fresh one.
\<close>

definition deriveKEK ::
  "argon2_library \<Rightarrow> string \<Rightarrow> buffer option \<Rightarrow> random_source \<Rightarrow> error + KEKParams \<times> random_source" where
  "deriveKEK argon2 password salt_opt g =
     (case (case salt_opt of Some s \<Rightarrow> (s, g) | None \<Rightarrow> randomBytes SALT_SIZE g) of
        (saltBuffer, g') \<Rightarrow>
          (case hash_raw argon2 kek_options password saltBuffer of
             Inl e \<Rightarrow> Inl e
           | Inr hash \<Rightarrow> Inr (\<lparr> KEKParams.key = hash, salt = saltBuffer \<rparr>, g')))"

definition wrapDEK :: "buffer \<Rightarrow> buffer \<Rightarrow> random_source \<Rightarrow> error + EncryptedData \<times> random_source" where
  "wrapDEK dek kek g = encrypt dek kek g"

definition unwrapDEK :: "EncryptedData \<Rightarrow> buffer \<Rightarrow> error + buffer" where
  "unwrapDEK wrappedDEK kek = decrypt wrappedDEK kek"

definition generateWrappedDEK :: "buffer \<Rightarrow> random_source \<Rightarrow> error + DEK \<times> random_source" where
  "generateWrappedDEK kek g =
     (case generateDEK g of (dek, g1) \<Rightarrow>
        (case wrapDEK dek kek g1 of
           Inl e \<Rightarrow> Inl e
         | Inr (w, g2) \<Rightarrow> Inr (\<lparr> DEK.key = dek, wrapped = w \<rparr>, g2)))"

text \<open>
  The \<open>for\<close> loop of \<open>rotateKEK\<close>, with the list \<open>reWrappedDEKs\<close> built so far: an
  exception of \<open>unwrapDEK\<close> or \<open>wrapDEK\<close> leaves the loop and the function, and the list
  is lost with it.
\<close>

fun rotateKEK_loop ::
  "buffer \<Rightarrow> buffer \<Rightarrow> EncryptedData list \<Rightarrow> EncryptedData list \<Rightarrow> random_source
     \<Rightarrow> error + EncryptedData list \<times> random_source" where
  "rotateKEK_loop oldKEK newKEK [] reWrappedDEKs g = Inr (reWrappedDEKs, g)"
| "rotateKEK_loop oldKEK newKEK (wrappedDEK # rest) reWrappedDEKs g =
     (case unwrapDEK wrappedDEK oldKEK of
        Inl e \<Rightarrow> Inl e
      | Inr dek \<Rightarrow>
          (case wrapDEK dek newKEK g of
             Inl e \<Rightarrow> Inl e
           | Inr (newWrapped, g') \<Rightarrow>
               rotateKEK_loop oldKEK newKEK rest (reWrappedDEKs @ [newWrapped]) g'))"

definition rotateKEK ::
  "buffer \<Rightarrow> buffer \<Rightarrow> EncryptedData list \<Rightarrow> random_source
     \<Rightarrow> error + EncryptedData list \<times> random_source" where
  "rotateKEK oldKEK newKEK wrappedDEKs g = rotateKEK_loop oldKEK newKEK wrappedDEKs [] g"

definition verifyKEK :: "buffer \<Rightarrow> EncryptedData \<Rightarrow> bool" where
  "verifyKEK kek testWrappedDEK =
     (case unwrapDEK testWrappedDEK kek of Inl e \<Rightarrow> False | Inr dek \<Rightarrow> True)"

section \<open>\<open>keyRotation.ts\<close>\<close>

text \<open>
  \<open>wrappedDEKs.map(...)\<close> of \<open>rotateUserKEK\<close>: the callback runs on the items in order,
  and an exception in it ends the \<open>map\<close> with no array.
\<close>

fun rewrap_items ::
  "buffer \<Rightarrow> buffer \<Rightarrow> (string \<times> EncryptedData) list \<Rightarrow> random_source
     \<Rightarrow> error + (string \<times> EncryptedData) list \<times> random_source" where
  "rewrap_items oldKEK newKEK [] g = Inr ([], g)"
| "rewrap_items oldKEK newKEK ((ident, wrappedDEK) # rest) g =
     (case unwrapDEK wrappedDEK oldKEK of
        Inl e \<Rightarrow> Inl e
      | Inr dek \<Rightarrow>
          (case wrapDEK dek newKEK g of
             Inl e \<Rightarrow> Inl e
           | Inr (newWrapped, g') \<Rightarrow>
               (case rewrap_items oldKEK newKEK rest g' of
                  Inl e \<Rightarrow> Inl e
                | Inr (done, g'') \<Rightarrow> Inr ((ident, newWrapped) # done, g''))))"

record KeyRotationResult =
  newKEK :: KEKParams
  reWrappedDEKs :: "(string \<times> EncryptedData) list"

definition rotateUserKEK ::
  "argon2_library \<Rightarrow> string \<Rightarrow> string \<Rightarrow> buffer \<Rightarrow> (string \<times> EncryptedData) list
     \<Rightarrow> random_source \<Rightarrow> error + KeyRotationResult \<times> random_source" where
  "rotateUserKEK argon2 oldPassword newPassword oldSalt wrappedDEKs g =
     (case deriveKEK argon2 oldPassword (Some oldSalt) g of
        Inl e \<Rightarrow> Inl e
      | Inr (old, g1) \<Rightarrow>
          (case deriveKEK argon2 newPassword None g1 of
             Inl e \<Rightarrow> Inl e
           | Inr (new, g2) \<Rightarrow>
               (case rewrap_items (KEKParams.key old) (KEKParams.key new) wrappedDEKs g2 of
                  Inl e \<Rightarrow> Inl e
                | Inr (items, g3) \<Rightarrow>
                    Inr (\<lparr> newKEK = new, reWrappedDEKs = items \<rparr>, g3))))"

section \<open>\<open>recovery.ts\<close>\<close>






definition recovery_options :: argon2_options where
  "recovery_options = \<lparr> memoryCost = 65536, timeCost = 3, parallelism = 4, hashLength = 32 \<rparr>"

text \<open>
  \<open>hashRecoveryCode\<close> passes no salt: the library draws its 16 bytes from the random
  source. It passes no \<open>hashLength\<close> either: the library's default is 32.
\<close>

definition hashRecoveryCode ::
  "argon2_library \<Rightarrow> string \<Rightarrow> random_source \<Rightarrow> error + string \<times> random_source" where
  "hashRecoveryCode argon2 code g =
     (case randomBytes 16 g of (s, g') \<Rightarrow>
        (case hash_encoded argon2 recovery_options code s of
           Inl e \<Rightarrow> Inl e
         | Inr h \<Rightarrow> Inr (h, g')))"

text \<open>
  \<open>try { await argon2.verify(hash, code); return true; } catch { return false; }\<close>: the
  value that \<open>argon2.verify\<close> resolves to is not read.
\<close>

definition verifyRecoveryCode :: "argon2_library \<Rightarrow> string \<Rightarrow> string \<Rightarrow> bool" where
  "verifyRecoveryCode argon2 code hash =
     (case verify_encoded argon2 hash code of Inl e \<Rightarrow> False | Inr matched \<Rightarrow> True)"

text \<open>The result \<open>-1\<close> of the source is \<open>None\<close>.\<close>

fun verifyRecoveryCodeAgainstArray_loop ::
  "argon2_library \<Rightarrow> string \<Rightarrow> string list \<Rightarrow> nat \<Rightarrow> nat option" where
  "verifyRecoveryCodeAgainstArray_loop argon2 code [] i = None"
| "verifyRecoveryCodeAgainstArray_loop argon2 code (h # hashes) i =
     (if verifyRecoveryCode argon2 code h then Some i
      else verifyRecoveryCodeAgainstArray_loop argon2 code hashes (i + 1))"

definition verifyRecoveryCodeAgainstArray :: "argon2_library \<Rightarrow> string \<Rightarrow> string list \<Rightarrow> nat option" where
  "verifyRecoveryCodeAgainstArray argon2 code hashes =
     verifyRecoveryCodeAgainstArray_loop argon2 code hashes 0"

section \<open>Concrete instances\<close>

text \<open>
  A library that meets the hypotheses of the theorems below, so that each of them can be
  applied to concrete values: its raw hash has the length asked for, its encoded hash is
  a prefix followed by the password, and its verification compares as \<open>argon2.verify\<close>
  does. It is not Argon2id and nothing is stated about it beyond that.
\<close>

definition toy_argon2 :: argon2_library where
  "toy_argon2 =
     \<lparr> hash_raw = (\<lambda>opts password s.
          if length s < 8 then Inl Argon2Error
          else Inr (take (hashLength opts) (map (of_nat \<circ> of_char) password @ s @ replicate (hashLength opts) 0))),
       hash_encoded = (\<lambda>opts password s. Inr (''$argon2id$'' @ password)),
       verify_encoded = (\<lambda>digest password.
          if take 10 digest = ''$argon2id$'' then Inr (drop 10 digest = password)
          else Inl Argon2Error) \<rparr>"

text \<open>A random source that returns the same value at every draw.\<close>

definition constant_source :: "'a \<Rightarrow> 'a stream" where
  "constant_source x = sconst x"


section \<open>Concrete keys and buffers\<close>

text \<open>
  Two 32-byte keys and a 32-byte buffer \<open>P0\<close>, used where a statement is checked on
  concrete values. \<open>C0\<close> and \<open>T0\<close> are the ciphertext and the tag of \<open>P0\<close> under \<open>K1\<close>
  with the all-zero nonce \<open>N0\<close>, \<open>C0F\<close> is \<open>C0\<close> with the lowest bit of its first byte flipped and
  \<open>T0F\<close> the tag of \<open>C0F\<close> under \<open>K1\<close>, and \<open>W0C\<close> and \<open>W0T\<close> those of \<open>P0\<close> under \<open>K2\<close>.
\<close>

definition K1 :: buffer where
  "K1 = [0x00, 0x01, 0x02, 0x03, 0x04, 0x05, 0x06, 0x07, 0x08, 0x09, 0x0a, 0x0b, 0x0c, 0x0d, 0x0e, 0x0f, 0x10, 0x11, 0x12, 0x13, 0x14, 0x15, 0x16, 0x17, 0x18, 0x19, 0x1a, 0x1b, 0x1c, 0x1d, 0x1e, 0x1f]"

definition K2 :: buffer where
  "K2 = [0x00, 0x00, 0x00, 0x00, 0x00, 0x00, 0x00, 0x00, 0x00, 0x00, 0x00, 0x00, 0x00, 0x00, 0x00, 0x00, 0x00, 0x00, 0x00, 0x00, 0x00, 0x00, 0x00, 0x00, 0x00, 0x00, 0x00, 0x00, 0x00, 0x00, 0x00, 0x00]"

definition N0 :: buffer where
  "N0 = [0x00, 0x00, 0x00, 0x00, 0x00, 0x00, 0x00, 0x00, 0x00, 0x00, 0x00, 0x00]"

definition P0 :: buffer where
  "P0 = [0x3c, 0xe8, 0x05, 0x82, 0x94, 0x6f, 0xe8, 0x53, 0xd6, 0x18, 0x19, 0x4c, 0x6e, 0x3c, 0xba, 0xfe, 0xc2, 0x52, 0x44, 0x40, 0x3c, 0x94, 0x76, 0x38, 0x98, 0x87, 0xa9, 0x98, 0xd9, 0xe2, 0x43, 0x49]"

definition P1 :: buffer where
  "P1 = [0xfc, 0xf3, 0xf0, 0x61, 0x6c, 0x23, 0x00, 0x80, 0xd9, 0xfe, 0x75, 0xaa, 0xcc, 0xe3, 0xb6, 0x7f, 0x62, 0x71, 0x11, 0xd9, 0x23, 0xb3, 0x3c, 0x63, 0xc9, 0xbb, 0xef, 0x95, 0x69, 0x1b, 0x2b, 0x91]"

definition C0 :: buffer where
  "C0 = [0x32, 0x54, 0xb0, 0x5c, 0x21, 0x43, 0x6b, 0xee, 0xde, 0xb0, 0xb0, 0x79, 0x76, 0x10, 0x2b, 0x67, 0x10, 0x11, 0x12, 0x13, 0x14, 0x15, 0x16, 0x17, 0x18, 0x19, 0x1a, 0x1b, 0x1c, 0x1d, 0x1e, 0x1f]"

definition T0 :: buffer where
  "T0 = [0xca, 0x10, 0x4c, 0x3d, 0xef, 0x46, 0xcb, 0x56, 0xf6, 0xcd, 0xb0, 0x57, 0x66, 0x82, 0x2b, 0x42]"


definition T0F :: buffer where
  "T0F = [0xa7, 0x8c, 0x7f, 0x5b, 0x56, 0x95, 0xd5, 0xaf, 0x63, 0x97, 0x41, 0x73, 0x0c, 0xa0, 0xac, 0xb7]"

definition W0C :: buffer where
  "W0C = [0xf2, 0x4f, 0x45, 0xbf, 0xd9, 0x0f, 0x83, 0x3d, 0xd1, 0x56, 0xdc, 0x9f, 0xd4, 0xcf, 0x27, 0xe6, 0xb0, 0x32, 0x47, 0x8a, 0x0b, 0x32, 0x5c, 0x4c, 0x49, 0x25, 0x5c, 0x16, 0xac, 0xe4, 0x76, 0xc7]"

definition W0T :: buffer where
  "W0T = [0x65, 0x68, 0xac, 0x56, 0xc9, 0x46, 0xd4, 0xf4, 0xd3, 0xb5, 0x6c, 0x21, 0x55, 0x64, 0xfa, 0xe4]"

definition E0 :: EncryptedData where
  "E0 = \<lparr> ciphertext = C0, nonce = N0, tag = T0 \<rparr>"

definition W0 :: EncryptedData where
  "W0 = \<lparr> ciphertext = W0C, nonce = N0, tag = W0T \<rparr>"

text \<open>
  \<open>n\<close> calls of \<open>encrypt\<close> in a row with the same plaintext and key, each drawing from
  what the call before left of the random source.
\<close>

fun encrypt_calls ::
  "nat \<Rightarrow> buffer \<Rightarrow> buffer \<Rightarrow> random_source \<Rightarrow> error + EncryptedData list \<times> random_source" where
  "encrypt_calls 0 plaintext k g = Inr ([], g)"
| "encrypt_calls (Suc n) plaintext k g =
     (case encrypt plaintext k g of
        Inl e \<Rightarrow> Inl e
      | Inr (e1, g1) \<Rightarrow>
          (case encrypt_calls n plaintext k g1 of
             Inl e \<Rightarrow> Inl e
           | Inr (es, g2) \<Rightarrow> Inr (e1 # es, g2)))"

section \<open>Lengths in the cipher\<close>

lemma length_xor_bytes: "length (xor_bytes xs ys) = min (length xs) (length ys)"
  by (simp add: xor_bytes_def)

lemma xor_bytes_involution:
  "length xs \<le> length ys \<Longrightarrow> xor_bytes (xor_bytes xs ys) ys = xs"
proof (induction xs arbitrary: ys)
  case Nil
  then show ?case by (simp add: xor_bytes_def)
next
  case (Cons x xs)
  then obtain y ys' where ys: "ys = y # ys'" by (cases ys) auto
  have "(x XOR y) XOR y = x"
    by (simp add: xor.assoc)
  with Cons ys show ?case by (simp add: xor_bytes_def)
qed

lemma length_shift_rows: "length (shift_rows s) = 16"
  by (simp add: shift_rows_def)

lemma length_sub_word: "length (sub_word w) = length w"
  by (simp add: sub_word_def)

lemma length_rot_word: "w \<noteq> [] \<Longrightarrow> length (rot_word w) = length w"
  by (cases w) (simp_all add: rot_word_def)

lemma words4_words_of:
  assumes "length k = 32"
  shows "length (words_of k) = 8" and "words4 (words_of k)"
  using assms by (auto simp: words_of_def words4_def)

lemma key_expansion_step_inv:
  assumes "words4 w" and "length w = i" and "8 \<le> i"
  shows "words4 (key_expansion_step w i)" and "length (key_expansion_step w i) = Suc i"
proof -
  have p: "length (w ! (i - 1)) = 4" and q: "length (w ! (i - 8)) = 4"
    using assms by (auto simp: words4_def)
  from p have ne: "w ! (i - 1) \<noteq> []" by auto
  have "length (xor_bytes (w ! (i - 8))
          (if i mod 8 = 0
           then xor_bytes (sub_word (rot_word (w ! (i - 1)))) [RCON ! (i div 8 - 1), 0, 0, 0]
           else if i mod 8 = 4 then sub_word (w ! (i - 1)) else w ! (i - 1))) = 4"
    using p q ne by (simp add: length_xor_bytes length_sub_word length_rot_word)
  then show "words4 (key_expansion_step w i)"
    using assms(1) by (auto simp: key_expansion_step_def words4_def Let_def)
  show "length (key_expansion_step w i) = Suc i"
    using assms(2) by (simp add: key_expansion_step_def Let_def)
qed

lemma key_expansion_fold_inv:
  assumes "words4 w" and "length w = a" and "8 \<le> a"
  shows "words4 (foldl key_expansion_step w [a..<a + n])
       \<and> length (foldl key_expansion_step w [a..<a + n]) = a + n"
proof (induction n)
  case 0
  with assms show ?case by simp
next
  case (Suc n)
  have "[a..<a + Suc n] = [a..<a + n] @ [a + n]" by simp
  then have "foldl key_expansion_step w [a..<a + Suc n]
    = key_expansion_step (foldl key_expansion_step w [a..<a + n]) (a + n)"
    by (simp only: foldl_append foldl_Cons foldl_Nil)
  with Suc assms(3) key_expansion_step_inv [of "foldl key_expansion_step w [a..<a + n]" "a + n"]
  show ?case by simp
qed

lemma key_expansion_inv:
  assumes "length k = 32"
  shows "words4 (key_expansion k)" and "length (key_expansion k) = 60"
  using key_expansion_fold_inv [of "words_of k" 8 52] words4_words_of [OF assms]
  by (simp_all add: key_expansion_def)

lemma length_concat_words4: "words4 w \<Longrightarrow> length (concat w) = 4 * length w"
  by (induction w) (auto simp: words4_def)

lemma length_round_key:
  assumes "words4 w" and "4 * r + 4 \<le> length w"
  shows "length (round_key w r) = 16"
proof -
  have "words4 (take 4 (drop (4 * r) w))"
    using assms(1) by (auto simp: words4_def dest: in_set_takeD in_set_dropD)
  then show ?thesis
    using assms(2) by (simp add: round_key_def length_concat_words4)
qed

lemma length_aes256_encrypt_block:
  "length k = 32 \<Longrightarrow> length (aes256_encrypt_block k block) = 16"
  using key_expansion_inv [of k] length_round_key [of "key_expansion k" 14]
  by (simp add: aes256_encrypt_block_def cipher_def length_xor_bytes length_shift_rows)

lemma length_gctr: "length k = 32 \<Longrightarrow> length (gctr k cb x) = length x"
proof (induction k cb x rule: gctr.induct)
  case (1 key cb x)
  show ?case
  proof (cases "x = []")
    case True
    then show ?thesis by (simp add: gctr.simps)
  next
    case False
    with 1 show ?thesis
      by (subst gctr.simps) (simp add: length_xor_bytes length_aes256_encrypt_block)
  qed
qed

lemma gctr_involution: "length k = 32 \<Longrightarrow> gctr k cb (gctr k cb x) = x"
proof (induction k cb x rule: gctr.induct)
  case (1 key cb x)
  show ?case
  proof (cases "x = []")
    case True
    then show ?thesis by (simp add: gctr.simps)
  next
    case False
    define a where "a = xor_bytes (take 16 x) (aes256_encrypt_block key cb)"
    define b where "b = gctr key (inc32 cb) (drop 16 x)"
    have len_a: "length a = min 16 (length x)"
      using 1(2) by (simp add: a_def length_xor_bytes length_aes256_encrypt_block)
    have len_b: "length b = length x - 16"
      using 1(2) by (simp add: b_def length_gctr)
    have unfold: "gctr key cb x = a @ b"
      using False by (subst gctr.simps) (simp add: a_def b_def)
    have "0 < length a"
      using False len_a by (cases x) auto
    then have ne: "a @ b \<noteq> []" by auto
    have "take 16 (a @ b) = a \<and> drop 16 (a @ b) = b"
    proof (cases "16 \<le> length x")
      case True
      with len_a show ?thesis by simp
    next
      case False
      with len_b have "b = []" by simp
      with len_a show ?thesis by simp
    qed
    then have tk: "take 16 (a @ b) = a" and dr: "drop 16 (a @ b) = b"
      by simp_all
    have back_a: "xor_bytes a (aes256_encrypt_block key cb) = take 16 x"
      unfolding a_def using 1(2)
      by (intro xor_bytes_involution) (simp add: length_aes256_encrypt_block)
    have back_b: "gctr key (inc32 cb) b = drop 16 x"
      unfolding b_def using 1 False by simp
    have "gctr key cb (a @ b) =
        (if a @ b = [] then []
         else xor_bytes (take 16 (a @ b)) (aes256_encrypt_block key cb)
              @ gctr key (inc32 cb) (drop 16 (a @ b)))"
      by (rule gctr.simps)
    also have "\<dots> = xor_bytes a (aes256_encrypt_block key cb) @ gctr key (inc32 cb) b"
      by (simp only: ne tk dr if_False)
    finally show ?thesis
      by (simp add: unfold back_a back_b)
  qed
qed

lemma gcm_crypt_involution: "length k = 32 \<Longrightarrow> gcm_crypt k iv (gcm_crypt k iv x) = x"
  by (simp add: gcm_crypt_def gctr_involution)

lemma length_gcm_crypt: "length k = 32 \<Longrightarrow> length (gcm_crypt k iv x) = length x"
  by (simp add: gcm_crypt_def length_gctr)

lemma length_be_bytes: "length (be_bytes n v) = n"
  by (simp add: be_bytes_def)

lemma length_gcm_tag: "length k = 32 \<Longrightarrow> length (gcm_tag k iv c) = 16"
  by (simp add: gcm_tag_def length_xor_bytes length_be_bytes length_aes256_encrypt_block)

lemma valid_gcm_tag_length_16: "valid_gcm_tag_length 16"
  by (simp add: valid_gcm_tag_length_def)

section \<open>What \<open>encrypt\<close> and \<open>decrypt\<close> compute\<close>

lemma encrypt_32:
  "length k = 32 \<Longrightarrow>
   encrypt p k g =
     Inr (\<lparr> ciphertext = gcm_crypt k (stake 12 g) p,
             nonce = stake 12 g,
             tag = gcm_tag k (stake 12 g) (gcm_crypt k (stake 12 g) p) \<rparr>, sdrop 12 g)"
  by (simp add: encrypt_def randomBytes_def AES_KEY_SIZE_def AES_NONCE_SIZE_def)

lemma decrypt_32:
  assumes "length k = 32" and "length (nonce e) = 12" and "length (tag e) = 16"
  shows "decrypt e k =
     (if gcm_tag k (nonce e) (ciphertext e) = tag e
      then Inr (gcm_crypt k (nonce e) (ciphertext e)) else Inl DecryptionFailed)"
proof -
  have "nonce e \<noteq> []" using assms(2) by auto
  moreover have "take 16 (gcm_tag k (nonce e) (ciphertext e)) = gcm_tag k (nonce e) (ciphertext e)"
    using assms(1) by (simp add: length_gcm_tag)
  ultimately show ?thesis
    using assms by (simp add: decrypt_def AES_KEY_SIZE_def valid_gcm_tag_length_16)
qed

lemma decrypt_encrypt:
  assumes "length k = 32" and "encrypt p k g = Inr (e, g')"
  shows "decrypt e k = Inr p" and "length (nonce e) = 12" and "length (tag e) = 16"
proof -
  have e: "e = \<lparr> ciphertext = gcm_crypt k (stake 12 g) p, nonce = stake 12 g,
                 tag = gcm_tag k (stake 12 g) (gcm_crypt k (stake 12 g) p) \<rparr>"
    using assms by (simp add: encrypt_32)
  show n: "length (nonce e) = 12" by (simp add: e)
  show t: "length (tag e) = 16" using assms(1) by (simp add: e length_gcm_tag)
  show "decrypt e k = Inr p"
    using assms(1) by (simp add: decrypt_32 [OF assms(1) n t]) (simp add: e gcm_crypt_involution)
qed

section \<open>Evaluating the cipher on the concrete keys\<close>

lemma sub_byte_simps:
  "sub_byte 0x00 = 0x63" "sub_byte 0x01 = 0x7c" "sub_byte 0x02 = 0x77" "sub_byte 0x03 = 0x7b"
  "sub_byte 0x04 = 0xf2" "sub_byte 0x05 = 0x6b" "sub_byte 0x06 = 0x6f" "sub_byte 0x07 = 0xc5"
  "sub_byte 0x08 = 0x30" "sub_byte 0x09 = 0x01" "sub_byte 0x0a = 0x67" "sub_byte 0x0b = 0x2b"
  "sub_byte 0x0c = 0xfe" "sub_byte 0x0d = 0xd7" "sub_byte 0x0e = 0xab" "sub_byte 0x0f = 0x76"
  "sub_byte 0x10 = 0xca" "sub_byte 0x11 = 0x82" "sub_byte 0x12 = 0xc9" "sub_byte 0x13 = 0x7d"
  "sub_byte 0x14 = 0xfa" "sub_byte 0x15 = 0x59" "sub_byte 0x16 = 0x47" "sub_byte 0x17 = 0xf0"
  "sub_byte 0x18 = 0xad" "sub_byte 0x19 = 0xd4" "sub_byte 0x1a = 0xa2" "sub_byte 0x1b = 0xaf"
  "sub_byte 0x1c = 0x9c" "sub_byte 0x1d = 0xa4" "sub_byte 0x1e = 0x72" "sub_byte 0x1f = 0xc0"
  "sub_byte 0x20 = 0xb7" "sub_byte 0x21 = 0xfd" "sub_byte 0x22 = 0x93" "sub_byte 0x23 = 0x26"
  "sub_byte 0x24 = 0x36" "sub_byte 0x25 = 0x3f" "sub_byte 0x26 = 0xf7" "sub_byte 0x27 = 0xcc"
  "sub_byte 0x28 = 0x34" "sub_byte 0x29 = 0xa5" "sub_byte 0x2a = 0xe5" "sub_byte 0x2b = 0xf1"
  "sub_byte 0x2c = 0x71" "sub_byte 0x2d = 0xd8" "sub_byte 0x2e = 0x31" "sub_byte 0x2f = 0x15"
  "sub_byte 0x30 = 0x04" "sub_byte 0x31 = 0xc7" "sub_byte 0x32 = 0x23" "sub_byte 0x33 = 0xc3"
  "sub_byte 0x34 = 0x18" "sub_byte 0x35 = 0x96" "sub_byte 0x36 = 0x05" "sub_byte 0x37 = 0x9a"
  "sub_byte 0x38 = 0x07" "sub_byte 0x39 = 0x12" "sub_byte 0x3a = 0x80" "sub_byte 0x3b = 0xe2"
  "sub_byte 0x3c = 0xeb" "sub_byte 0x3d = 0x27" "sub_byte 0x3e = 0xb2" "sub_byte 0x3f = 0x75"
  "sub_byte 0x40 = 0x09" "sub_byte 0x41 = 0x83" "sub_byte 0x42 = 0x2c" "sub_byte 0x43 = 0x1a"
  "sub_byte 0x44 = 0x1b" "sub_byte 0x45 = 0x6e" "sub_byte 0x46 = 0x5a" "sub_byte 0x47 = 0xa0"
  "sub_byte 0x48 = 0x52" "sub_byte 0x49 = 0x3b" "sub_byte 0x4a = 0xd6" "sub_byte 0x4b = 0xb3"
  "sub_byte 0x4c = 0x29" "sub_byte 0x4d = 0xe3" "sub_byte 0x4e = 0x2f" "sub_byte 0x4f = 0x84"
  "sub_byte 0x50 = 0x53" "sub_byte 0x51 = 0xd1" "sub_byte 0x52 = 0x00" "sub_byte 0x53 = 0xed"
  "sub_byte 0x54 = 0x20" "sub_byte 0x55 = 0xfc" "sub_byte 0x56 = 0xb1" "sub_byte 0x57 = 0x5b"
  "sub_byte 0x58 = 0x6a" "sub_byte 0x59 = 0xcb" "sub_byte 0x5a = 0xbe" "sub_byte 0x5b = 0x39"
  "sub_byte 0x5c = 0x4a" "sub_byte 0x5d = 0x4c" "sub_byte 0x5e = 0x58" "sub_byte 0x5f = 0xcf"
  "sub_byte 0x60 = 0xd0" "sub_byte 0x61 = 0xef" "sub_byte 0x62 = 0xaa" "sub_byte 0x63 = 0xfb"
  "sub_byte 0x64 = 0x43" "sub_byte 0x65 = 0x4d" "sub_byte 0x66 = 0x33" "sub_byte 0x67 = 0x85"
  "sub_byte 0x68 = 0x45" "sub_byte 0x69 = 0xf9" "sub_byte 0x6a = 0x02" "sub_byte 0x6b = 0x7f"
  "sub_byte 0x6c = 0x50" "sub_byte 0x6d = 0x3c" "sub_byte 0x6e = 0x9f" "sub_byte 0x6f = 0xa8"
  "sub_byte 0x70 = 0x51" "sub_byte 0x71 = 0xa3" "sub_byte 0x72 = 0x40" "sub_byte 0x73 = 0x8f"
  "sub_byte 0x74 = 0x92" "sub_byte 0x75 = 0x9d" "sub_byte 0x76 = 0x38" "sub_byte 0x77 = 0xf5"
  "sub_byte 0x78 = 0xbc" "sub_byte 0x79 = 0xb6" "sub_byte 0x7a = 0xda" "sub_byte 0x7b = 0x21"
  "sub_byte 0x7c = 0x10" "sub_byte 0x7d = 0xff" "sub_byte 0x7e = 0xf3" "sub_byte 0x7f = 0xd2"
  "sub_byte 0x80 = 0xcd" "sub_byte 0x81 = 0x0c" "sub_byte 0x82 = 0x13" "sub_byte 0x83 = 0xec"
  "sub_byte 0x84 = 0x5f" "sub_byte 0x85 = 0x97" "sub_byte 0x86 = 0x44" "sub_byte 0x87 = 0x17"
  "sub_byte 0x88 = 0xc4" "sub_byte 0x89 = 0xa7" "sub_byte 0x8a = 0x7e" "sub_byte 0x8b = 0x3d"
  "sub_byte 0x8c = 0x64" "sub_byte 0x8d = 0x5d" "sub_byte 0x8e = 0x19" "sub_byte 0x8f = 0x73"
  "sub_byte 0x90 = 0x60" "sub_byte 0x91 = 0x81" "sub_byte 0x92 = 0x4f" "sub_byte 0x93 = 0xdc"
  "sub_byte 0x94 = 0x22" "sub_byte 0x95 = 0x2a" "sub_byte 0x96 = 0x90" "sub_byte 0x97 = 0x88"
  "sub_byte 0x98 = 0x46" "sub_byte 0x99 = 0xee" "sub_byte 0x9a = 0xb8" "sub_byte 0x9b = 0x14"
  "sub_byte 0x9c = 0xde" "sub_byte 0x9d = 0x5e" "sub_byte 0x9e = 0x0b" "sub_byte 0x9f = 0xdb"
  "sub_byte 0xa0 = 0xe0" "sub_byte 0xa1 = 0x32" "sub_byte 0xa2 = 0x3a" "sub_byte 0xa3 = 0x0a"
  "sub_byte 0xa4 = 0x49" "sub_byte 0xa5 = 0x06" "sub_byte 0xa6 = 0x24" "sub_byte 0xa7 = 0x5c"
  "sub_byte 0xa8 = 0xc2" "sub_byte 0xa9 = 0xd3" "sub_byte 0xaa = 0xac" "sub_byte 0xab = 0x62"
  "sub_byte 0xac = 0x91" "sub_byte 0xad = 0x95" "sub_byte 0xae = 0xe4" "sub_byte 0xaf = 0x79"
  "sub_byte 0xb0 = 0xe7" "sub_byte 0xb1 = 0xc8" "sub_byte 0xb2 = 0x37" "sub_byte 0xb3 = 0x6d"
  "sub_byte 0xb4 = 0x8d" "sub_byte 0xb5 = 0xd5" "sub_byte 0xb6 = 0x4e" "sub_byte 0xb7 = 0xa9"
  "sub_byte 0xb8 = 0x6c" "sub_byte 0xb9 = 0x56" "sub_byte 0xba = 0xf4" "sub_byte 0xbb = 0xea"
  "sub_byte 0xbc = 0x65" "sub_byte 0xbd = 0x7a" "sub_byte 0xbe = 0xae" "sub_byte 0xbf = 0x08"
  "sub_byte 0xc0 = 0xba" "sub_byte 0xc1 = 0x78" "sub_byte 0xc2 = 0x25" "sub_byte 0xc3 = 0x2e"
  "sub_byte 0xc4 = 0x1c" "sub_byte 0xc5 = 0xa6" "sub_byte 0xc6 = 0xb4" "sub_byte 0xc7 = 0xc6"
  "sub_byte 0xc8 = 0xe8" "sub_byte 0xc9 = 0xdd" "sub_byte 0xca = 0x74" "sub_byte 0xcb = 0x1f"
  "sub_byte 0xcc = 0x4b" "sub_byte 0xcd = 0xbd" "sub_byte 0xce = 0x8b" "sub_byte 0xcf = 0x8a"
  "sub_byte 0xd0 = 0x70" "sub_byte 0xd1 = 0x3e" "sub_byte 0xd2 = 0xb5" "sub_byte 0xd3 = 0x66"
  "sub_byte 0xd4 = 0x48" "sub_byte 0xd5 = 0x03" "sub_byte 0xd6 = 0xf6" "sub_byte 0xd7 = 0x0e"
  "sub_byte 0xd8 = 0x61" "sub_byte 0xd9 = 0x35" "sub_byte 0xda = 0x57" "sub_byte 0xdb = 0xb9"
  "sub_byte 0xdc = 0x86" "sub_byte 0xdd = 0xc1" "sub_byte 0xde = 0x1d" "sub_byte 0xdf = 0x9e"
  "sub_byte 0xe0 = 0xe1" "sub_byte 0xe1 = 0xf8" "sub_byte 0xe2 = 0x98" "sub_byte 0xe3 = 0x11"
  "sub_byte 0xe4 = 0x69" "sub_byte 0xe5 = 0xd9" "sub_byte 0xe6 = 0x8e" "sub_byte 0xe7 = 0x94"
  "sub_byte 0xe8 = 0x9b" "sub_byte 0xe9 = 0x1e" "sub_byte 0xea = 0x87" "sub_byte 0xeb = 0xe9"
  "sub_byte 0xec = 0xce" "sub_byte 0xed = 0x55" "sub_byte 0xee = 0x28" "sub_byte 0xef = 0xdf"
  "sub_byte 0xf0 = 0x8c" "sub_byte 0xf1 = 0xa1" "sub_byte 0xf2 = 0x89" "sub_byte 0xf3 = 0x0d"
  "sub_byte 0xf4 = 0xbf" "sub_byte 0xf5 = 0xe6" "sub_byte 0xf6 = 0x42" "sub_byte 0xf7 = 0x68"
  "sub_byte 0xf8 = 0x41" "sub_byte 0xf9 = 0x99" "sub_byte 0xfa = 0x2d" "sub_byte 0xfb = 0x0f"
  "sub_byte 0xfc = 0xb0" "sub_byte 0xfd = 0x54" "sub_byte 0xfe = 0xbb" "sub_byte 0xff = 0x16"
  by (simp_all add: sub_byte_def SBOX_def)

lemma xtime_simps:
  "xtime 0x00 = 0x00" "xtime 0x01 = 0x02" "xtime 0x02 = 0x04" "xtime 0x03 = 0x06"
  "xtime 0x04 = 0x08" "xtime 0x05 = 0x0a" "xtime 0x06 = 0x0c" "xtime 0x07 = 0x0e"
  "xtime 0x08 = 0x10" "xtime 0x09 = 0x12" "xtime 0x0a = 0x14" "xtime 0x0b = 0x16"
  "xtime 0x0c = 0x18" "xtime 0x0d = 0x1a" "xtime 0x0e = 0x1c" "xtime 0x0f = 0x1e"
  "xtime 0x10 = 0x20" "xtime 0x11 = 0x22" "xtime 0x12 = 0x24" "xtime 0x13 = 0x26"
  "xtime 0x14 = 0x28" "xtime 0x15 = 0x2a" "xtime 0x16 = 0x2c" "xtime 0x17 = 0x2e"
  "xtime 0x18 = 0x30" "xtime 0x19 = 0x32" "xtime 0x1a = 0x34" "xtime 0x1b = 0x36"
  "xtime 0x1c = 0x38" "xtime 0x1d = 0x3a" "xtime 0x1e = 0x3c" "xtime 0x1f = 0x3e"
  "xtime 0x20 = 0x40" "xtime 0x21 = 0x42" "xtime 0x22 = 0x44" "xtime 0x23 = 0x46"
  "xtime 0x24 = 0x48" "xtime 0x25 = 0x4a" "xtime 0x26 = 0x4c" "xtime 0x27 = 0x4e"
  "xtime 0x28 = 0x50" "xtime 0x29 = 0x52" "xtime 0x2a = 0x54" "xtime 0x2b = 0x56"
  "xtime 0x2c = 0x58" "xtime 0x2d = 0x5a" "xtime 0x2e = 0x5c" "xtime 0x2f = 0x5e"
  "xtime 0x30 = 0x60" "xtime 0x31 = 0x62" "xtime 0x32 = 0x64" "xtime 0x33 = 0x66"
  "xtime 0x34 = 0x68" "xtime 0x35 = 0x6a" "xtime 0x36 = 0x6c" "xtime 0x37 = 0x6e"
  "xtime 0x38 = 0x70" "xtime 0x39 = 0x72" "xtime 0x3a = 0x74" "xtime 0x3b = 0x76"
  "xtime 0x3c = 0x78" "xtime 0x3d = 0x7a" "xtime 0x3e = 0x7c" "xtime 0x3f = 0x7e"
  "xtime 0x40 = 0x80" "xtime 0x41 = 0x82" "xtime 0x42 = 0x84" "xtime 0x43 = 0x86"
  "xtime 0x44 = 0x88" "xtime 0x45 = 0x8a" "xtime 0x46 = 0x8c" "xtime 0x47 = 0x8e"
  "xtime 0x48 = 0x90" "xtime 0x49 = 0x92" "xtime 0x4a = 0x94" "xtime 0x4b = 0x96"
  "xtime 0x4c = 0x98" "xtime 0x4d = 0x9a" "xtime 0x4e = 0x9c" "xtime 0x4f = 0x9e"
  "xtime 0x50 = 0xa0" "xtime 0x51 = 0xa2" "xtime 0x52 = 0xa4" "xtime 0x53 = 0xa6"
  "xtime 0x54 = 0xa8" "xtime 0x55 = 0xaa" "xtime 0x56 = 0xac" "xtime 0x57 = 0xae"
  "xtime 0x58 = 0xb0" "xtime 0x59 = 0xb2" "xtime 0x5a = 0xb4" "xtime 0x5b = 0xb6"
  "xtime 0x5c = 0xb8" "xtime 0x5d = 0xba" "xtime 0x5e = 0xbc" "xtime 0x5f = 0xbe"
  "xtime 0x60 = 0xc0" "xtime 0x61 = 0xc2" "xtime 0x62 = 0xc4" "xtime 0x63 = 0xc6"
  "xtime 0x64 = 0xc8" "xtime 0x65 = 0xca" "xtime 0x66 = 0xcc" "xtime 0x67 = 0xce"
  "xtime 0x68 = 0xd0" "xtime 0x69 = 0xd2" "xtime 0x6a = 0xd4" "xtime 0x6b = 0xd6"
  "xtime 0x6c = 0xd8" "xtime 0x6d = 0xda" "xtime 0x6e = 0xdc" "xtime 0x6f = 0xde"
  "xtime 0x70 = 0xe0" "xtime 0x71 = 0xe2" "xtime 0x72 = 0xe4" "xtime 0x73 = 0xe6"
  "xtime 0x74 = 0xe8" "xtime 0x75 = 0xea" "xtime 0x76 = 0xec" "xtime 0x77 = 0xee"
  "xtime 0x78 = 0xf0" "xtime 0x79 = 0xf2" "xtime 0x7a = 0xf4" "xtime 0x7b = 0xf6"
  "xtime 0x7c = 0xf8" "xtime 0x7d = 0xfa" "xtime 0x7e = 0xfc" "xtime 0x7f = 0xfe"
  "xtime 0x80 = 0x1b" "xtime 0x81 = 0x19" "xtime 0x82 = 0x1f" "xtime 0x83 = 0x1d"
  "xtime 0x84 = 0x13" "xtime 0x85 = 0x11" "xtime 0x86 = 0x17" "xtime 0x87 = 0x15"
  "xtime 0x88 = 0x0b" "xtime 0x89 = 0x09" "xtime 0x8a = 0x0f" "xtime 0x8b = 0x0d"
  "xtime 0x8c = 0x03" "xtime 0x8d = 0x01" "xtime 0x8e = 0x07" "xtime 0x8f = 0x05"
  "xtime 0x90 = 0x3b" "xtime 0x91 = 0x39" "xtime 0x92 = 0x3f" "xtime 0x93 = 0x3d"
  "xtime 0x94 = 0x33" "xtime 0x95 = 0x31" "xtime 0x96 = 0x37" "xtime 0x97 = 0x35"
  "xtime 0x98 = 0x2b" "xtime 0x99 = 0x29" "xtime 0x9a = 0x2f" "xtime 0x9b = 0x2d"
  "xtime 0x9c = 0x23" "xtime 0x9d = 0x21" "xtime 0x9e = 0x27" "xtime 0x9f = 0x25"
  "xtime 0xa0 = 0x5b" "xtime 0xa1 = 0x59" "xtime 0xa2 = 0x5f" "xtime 0xa3 = 0x5d"
  "xtime 0xa4 = 0x53" "xtime 0xa5 = 0x51" "xtime 0xa6 = 0x57" "xtime 0xa7 = 0x55"
  "xtime 0xa8 = 0x4b" "xtime 0xa9 = 0x49" "xtime 0xaa = 0x4f" "xtime 0xab = 0x4d"
  "xtime 0xac = 0x43" "xtime 0xad = 0x41" "xtime 0xae = 0x47" "xtime 0xaf = 0x45"
  "xtime 0xb0 = 0x7b" "xtime 0xb1 = 0x79" "xtime 0xb2 = 0x7f" "xtime 0xb3 = 0x7d"
  "xtime 0xb4 = 0x73" "xtime 0xb5 = 0x71" "xtime 0xb6 = 0x77" "xtime 0xb7 = 0x75"
  "xtime 0xb8 = 0x6b" "xtime 0xb9 = 0x69" "xtime 0xba = 0x6f" "xtime 0xbb = 0x6d"
  "xtime 0xbc = 0x63" "xtime 0xbd = 0x61" "xtime 0xbe = 0x67" "xtime 0xbf = 0x65"
  "xtime 0xc0 = 0x9b" "xtime 0xc1 = 0x99" "xtime 0xc2 = 0x9f" "xtime 0xc3 = 0x9d"
  "xtime 0xc4 = 0x93" "xtime 0xc5 = 0x91" "xtime 0xc6 = 0x97" "xtime 0xc7 = 0x95"
  "xtime 0xc8 = 0x8b" "xtime 0xc9 = 0x89" "xtime 0xca = 0x8f" "xtime 0xcb = 0x8d"
  "xtime 0xcc = 0x83" "xtime 0xcd = 0x81" "xtime 0xce = 0x87" "xtime 0xcf = 0x85"
  "xtime 0xd0 = 0xbb" "xtime 0xd1 = 0xb9" "xtime 0xd2 = 0xbf" "xtime 0xd3 = 0xbd"
  "xtime 0xd4 = 0xb3" "xtime 0xd5 = 0xb1" "xtime 0xd6 = 0xb7" "xtime 0xd7 = 0xb5"
  "xtime 0xd8 = 0xab" "xtime 0xd9 = 0xa9" "xtime 0xda = 0xaf" "xtime 0xdb = 0xad"
  "xtime 0xdc = 0xa3" "xtime 0xdd = 0xa1" "xtime 0xde = 0xa7" "xtime 0xdf = 0xa5"
  "xtime 0xe0 = 0xdb" "xtime 0xe1 = 0xd9" "xtime 0xe2 = 0xdf" "xtime 0xe3 = 0xdd"
  "xtime 0xe4 = 0xd3" "xtime 0xe5 = 0xd1" "xtime 0xe6 = 0xd7" "xtime 0xe7 = 0xd5"
  "xtime 0xe8 = 0xcb" "xtime 0xe9 = 0xc9" "xtime 0xea = 0xcf" "xtime 0xeb = 0xcd"
  "xtime 0xec = 0xc3" "xtime 0xed = 0xc1" "xtime 0xee = 0xc7" "xtime 0xef = 0xc5"
  "xtime 0xf0 = 0xfb" "xtime 0xf1 = 0xf9" "xtime 0xf2 = 0xff" "xtime 0xf3 = 0xfd"
  "xtime 0xf4 = 0xf3" "xtime 0xf5 = 0xf1" "xtime 0xf6 = 0xf7" "xtime 0xf7 = 0xf5"
  "xtime 0xf8 = 0xeb" "xtime 0xf9 = 0xe9" "xtime 0xfa = 0xef" "xtime 0xfb = 0xed"
  "xtime 0xfc = 0xe3" "xtime 0xfd = 0xe1" "xtime 0xfe = 0xe7" "xtime 0xff = 0xe5"
  by (simp_all add: xtime_def)

lemma key_expansion_K1:
  "key_expansion K1 =
     [[0x00, 0x01, 0x02, 0x03], [0x04, 0x05, 0x06, 0x07], [0x08, 0x09, 0x0a, 0x0b], [0x0c, 0x0d, 0x0e, 0x0f], [0x10, 0x11, 0x12, 0x13], [0x14, 0x15, 0x16, 0x17], [0x18, 0x19, 0x1a, 0x1b], [0x1c, 0x1d, 0x1e, 0x1f], [0xa5, 0x73, 0xc2, 0x9f], [0xa1, 0x76, 0xc4, 0x98], [0xa9, 0x7f, 0xce, 0x93], [0xa5, 0x72, 0xc0, 0x9c], [0x16, 0x51, 0xa8, 0xcd], [0x02, 0x44, 0xbe, 0xda], [0x1a, 0x5d, 0xa4, 0xc1], [0x06, 0x40, 0xba, 0xde], [0xae, 0x87, 0xdf, 0xf0], [0x0f, 0xf1, 0x1b, 0x68], [0xa6, 0x8e, 0xd5, 0xfb], [0x03, 0xfc, 0x15, 0x67], [0x6d, 0xe1, 0xf1, 0x48], [0x6f, 0xa5, 0x4f, 0x92], [0x75, 0xf8, 0xeb, 0x53], [0x73, 0xb8, 0x51, 0x8d], [0xc6, 0x56, 0x82, 0x7f], [0xc9, 0xa7, 0x99, 0x17], [0x6f, 0x29, 0x4c, 0xec], [0x6c, 0xd5, 0x59, 0x8b], [0x3d, 0xe2, 0x3a, 0x75], [0x52, 0x47, 0x75, 0xe7], [0x27, 0xbf, 0x9e, 0xb4], [0x54, 0x07, 0xcf, 0x39], [0x0b, 0xdc, 0x90, 0x5f], [0xc2, 0x7b, 0x09, 0x48], [0xad, 0x52, 0x45, 0xa4], [0xc1, 0x87, 0x1c, 0x2f], [0x45, 0xf5, 0xa6, 0x60], [0x17, 0xb2, 0xd3, 0x87], [0x30, 0x0d, 0x4d, 0x33], [0x64, 0x0a, 0x82, 0x0a], [0x7c, 0xcf, 0xf7, 0x1c], [0xbe, 0xb4, 0xfe, 0x54], [0x13, 0xe6, 0xbb, 0xf0], [0xd2, 0x61, 0xa7, 0xdf], [0xf0, 0x1a, 0xfa, 0xfe], [0xe7, 0xa8, 0x29, 0x79], [0xd7, 0xa5, 0x64, 0x4a], [0xb3, 0xaf, 0xe6, 0x40], [0x25, 0x41, 0xfe, 0x71], [0x9b, 0xf5, 0x00, 0x25], [0x88, 0x13, 0xbb, 0xd5], [0x5a, 0x72, 0x1c, 0x0a], [0x4e, 0x5a, 0x66, 0x99], [0xa9, 0xf2, 0x4f, 0xe0], [0x7e, 0x57, 0x2b, 0xaa], [0xcd, 0xf8, 0xcd, 0xea], [0x24, 0xfc, 0x79, 0xcc], [0xbf, 0x09, 0x79, 0xe9], [0x37, 0x1a, 0xc2, 0x3c], [0x6d, 0x68, 0xde, 0x36]]"
  by (simp add: K1_def key_expansion_def words_of_def xor_bytes_def sub_word_def rot_word_def
      sub_byte_simps RCON_def key_expansion_step_def Let_def upt_rec)

lemma aes256_encrypt_block_K1:
  "aes256_encrypt_block K1 [0x00, 0x00, 0x00, 0x00, 0x00, 0x00, 0x00, 0x00, 0x00, 0x00, 0x00, 0x00, 0x00, 0x00, 0x00, 0x00] =
     [0xf2, 0x90, 0x00, 0xb6, 0x2a, 0x49, 0x9f, 0xd0, 0xa9, 0xf3, 0x9a, 0x6a, 0xdd, 0x2e, 0x77, 0x80]"
  "aes256_encrypt_block K1 [0x00, 0x00, 0x00, 0x00, 0x00, 0x00, 0x00, 0x00, 0x00, 0x00, 0x00, 0x00, 0x00, 0x00, 0x00, 0x01] =
     [0xf0, 0x5d, 0x76, 0xae, 0x4a, 0xb9, 0x9f, 0xe5, 0xa6, 0xf6, 0x9b, 0x31, 0x48, 0xc2, 0x36, 0x3d]"
  "aes256_encrypt_block K1 [0x00, 0x00, 0x00, 0x00, 0x00, 0x00, 0x00, 0x00, 0x00, 0x00, 0x00, 0x00, 0x00, 0x00, 0x00, 0x02] =
     [0x0e, 0xbc, 0xb5, 0xde, 0xb5, 0x2c, 0x83, 0xbd, 0x08, 0xa8, 0xa9, 0x35, 0x18, 0x2c, 0x91, 0x99]"
  "aes256_encrypt_block K1 [0x00, 0x00, 0x00, 0x00, 0x00, 0x00, 0x00, 0x00, 0x00, 0x00, 0x00, 0x00, 0x00, 0x00, 0x00, 0x03] =
     [0xd2, 0x43, 0x56, 0x53, 0x28, 0x81, 0x60, 0x2f, 0x80, 0x9e, 0xb3, 0x83, 0xc5, 0xff, 0x5d, 0x56]"
  "aes256_encrypt_block K1 [0x00, 0x11, 0x22, 0x33, 0x44, 0x55, 0x66, 0x77, 0x88, 0x99, 0xaa, 0xbb, 0xcc, 0xdd, 0xee, 0xff] =
     [0x8e, 0xa2, 0xb7, 0xca, 0x51, 0x67, 0x45, 0xbf, 0xea, 0xfc, 0x49, 0x90, 0x4b, 0x49, 0x60, 0x89]"
  by (simp_all add: aes256_encrypt_block_def key_expansion_K1 cipher_def aes_round_def
      round_key_def shift_rows_def xor_bytes_def sub_byte_simps xtime_simps upt_rec)

lemma key_expansion_K2:
  "key_expansion K2 =
     [[0x00, 0x00, 0x00, 0x00], [0x00, 0x00, 0x00, 0x00], [0x00, 0x00, 0x00, 0x00], [0x00, 0x00, 0x00, 0x00], [0x00, 0x00, 0x00, 0x00], [0x00, 0x00, 0x00, 0x00], [0x00, 0x00, 0x00, 0x00], [0x00, 0x00, 0x00, 0x00], [0x62, 0x63, 0x63, 0x63], [0x62, 0x63, 0x63, 0x63], [0x62, 0x63, 0x63, 0x63], [0x62, 0x63, 0x63, 0x63], [0xaa, 0xfb, 0xfb, 0xfb], [0xaa, 0xfb, 0xfb, 0xfb], [0xaa, 0xfb, 0xfb, 0xfb], [0xaa, 0xfb, 0xfb, 0xfb], [0x6f, 0x6c, 0x6c, 0xcf], [0x0d, 0x0f, 0x0f, 0xac], [0x6f, 0x6c, 0x6c, 0xcf], [0x0d, 0x0f, 0x0f, 0xac], [0x7d, 0x8d, 0x8d, 0x6a], [0xd7, 0x76, 0x76, 0x91], [0x7d, 0x8d, 0x8d, 0x6a], [0xd7, 0x76, 0x76, 0x91], [0x53, 0x54, 0xed, 0xc1], [0x5e, 0x5b, 0xe2, 0x6d], [0x31, 0x37, 0x8e, 0xa2], [0x3c, 0x38, 0x81, 0x0e], [0x96, 0x8a, 0x81, 0xc1], [0x41, 0xfc, 0xf7, 0x50], [0x3c, 0x71, 0x7a, 0x3a], [0xeb, 0x07, 0x0c, 0xab], [0x9e, 0xaa, 0x8f, 0x28], [0xc0, 0xf1, 0x6d, 0x45], [0xf1, 0xc6, 0xe3, 0xe7], [0xcd, 0xfe, 0x62, 0xe9], [0x2b, 0x31, 0x2b, 0xdf], [0x6a, 0xcd, 0xdc, 0x8f], [0x56, 0xbc, 0xa6, 0xb5], [0xbd, 0xbb, 0xaa, 0x1e], [0x64, 0x06, 0xfd, 0x52], [0xa4, 0xf7, 0x90, 0x17], [0x55, 0x31, 0x73, 0xf0], [0x98, 0xcf, 0x11, 0x19], [0x6d, 0xbb, 0xa9, 0x0b], [0x07, 0x76, 0x75, 0x84], [0x51, 0xca, 0xd3, 0x31], [0xec, 0x71, 0x79, 0x2f], [0xe7, 0xb0, 0xe8, 0x9c], [0x43, 0x47, 0x78, 0x8b], [0x16, 0x76, 0x0b, 0x7b], [0x8e, 0xb9, 0x1a, 0x62], [0x74, 0xed, 0x0b, 0xa1], [0x73, 0x9b, 0x7e, 0x25], [0x22, 0x51, 0xad, 0x14], [0xce, 0x20, 0xd4, 0x3b], [0x10, 0xf8, 0x0a, 0x17], [0x53, 0xbf, 0x72, 0x9c], [0x45, 0xc9, 0x79, 0xe7], [0xcb, 0x70, 0x63, 0x85]]"
  by (simp add: K2_def key_expansion_def words_of_def xor_bytes_def sub_word_def rot_word_def
      sub_byte_simps RCON_def key_expansion_step_def Let_def upt_rec)

lemma aes256_encrypt_block_K2:
  "aes256_encrypt_block K2 [0x00, 0x00, 0x00, 0x00, 0x00, 0x00, 0x00, 0x00, 0x00, 0x00, 0x00, 0x00, 0x00, 0x00, 0x00, 0x00] =
     [0xdc, 0x95, 0xc0, 0x78, 0xa2, 0x40, 0x89, 0x89, 0xad, 0x48, 0xa2, 0x14, 0x92, 0x84, 0x20, 0x87]"
  "aes256_encrypt_block K2 [0x00, 0x00, 0x00, 0x00, 0x00, 0x00, 0x00, 0x00, 0x00, 0x00, 0x00, 0x00, 0x00, 0x00, 0x00, 0x01] =
     [0x53, 0x0f, 0x8a, 0xfb, 0xc7, 0x45, 0x36, 0xb9, 0xa9, 0x63, 0xb4, 0xf1, 0xc4, 0xcb, 0x73, 0x8b]"
  "aes256_encrypt_block K2 [0x00, 0x00, 0x00, 0x00, 0x00, 0x00, 0x00, 0x00, 0x00, 0x00, 0x00, 0x00, 0x00, 0x00, 0x00, 0x02] =
     [0xce, 0xa7, 0x40, 0x3d, 0x4d, 0x60, 0x6b, 0x6e, 0x07, 0x4e, 0xc5, 0xd3, 0xba, 0xf3, 0x9d, 0x18]"
  "aes256_encrypt_block K2 [0x00, 0x00, 0x00, 0x00, 0x00, 0x00, 0x00, 0x00, 0x00, 0x00, 0x00, 0x00, 0x00, 0x00, 0x00, 0x03] =
     [0x72, 0x60, 0x03, 0xca, 0x37, 0xa6, 0x2a, 0x74, 0xd1, 0xa2, 0xf5, 0x8e, 0x75, 0x06, 0x35, 0x8e]"
  by (simp_all add: aes256_encrypt_block_def key_expansion_K2 cipher_def aes_round_def
      round_key_def shift_rows_def xor_bytes_def sub_byte_simps xtime_simps upt_rec)

lemma gf128_mult_K1:
  "gf128_mult 0x3254b05c21436beedeb0b07976102b67 0xf29000b62a499fd0a9f39a6add2e7780 =
     0xed24531ad93850f5cddeca8d6c35ab54"
  "gf128_mult 0xfd354109cd2d46e2d5c7d0967028b54b 0xf29000b62a499fd0a9f39a6add2e7780 =
     0xa7b24fe88fdc22816f61df545eb56bb5"
  "gf128_mult 0xa7b24fe88fdc22816f61df545eb56ab5 0xf29000b62a499fd0a9f39a6add2e7780 =
     0x3a4d3a93a5ff54b3503b2b662e401d7f"
  "gf128_mult 0x3354b05c21436beedeb0b07976102b67 0xf29000b62a499fd0a9f39a6add2e7780 =
     0xecc1731bb56cc3ca6c8d2db9b98ff7bb"
  "gf128_mult 0xfcd06108a179d5dd749437a2a592e9a4 0xf29000b62a499fd0a9f39a6add2e7780 =
     0xa739ba4d3d30f5d840e4f280d57bfc9b"
  "gf128_mult 0xa739ba4d3d30f5d840e4f280d57bfd9b 0xf29000b62a499fd0a9f39a6add2e7780 =
     0x57d109f51c2c4a4ac561da4244629a8a"
  by (simp_all add: gf128_mult_def gf128_mult_step_def upt_rec bit_0)

lemma gf128_mult_K2:
  "gf128_mult 0x3254b05c21436beedeb0b07976102b67 0xdc95c078a2408989ad48a21492842087 =
     0x32cee0b1606960253596dec5a8db6c16"
  "gf128_mult 0x22dff2a2747c76322d8fc4deb4c67209 0xdc95c078a2408989ad48a21492842087 =
     0x28e8e863ece491a7f1ac49af0f9ce9ad"
  "gf128_mult 0x28e8e863ece491a7f1ac49af0f9ce8ad 0xdc95c078a2408989ad48a21492842087 =
     0x991fc6c62803fdef5fae04a6a24958c9"
  "gf128_mult 0xf24f45bfd90f833dd156dc9fd4cf27e6 0xdc95c078a2408989ad48a21492842087 =
     0xc87c38fbb147132ae0d2620dcf44fa1c"
  "gf128_mult 0x784e7f71ba754f66a9f73e1b63a08cdb 0xdc95c078a2408989ad48a21492842087 =
     0xa5c9c94fc6d0dee3531f92072a191e5c"
  "gf128_mult 0xa5c9c94fc6d0dee3531f92072a191f5c 0xdc95c078a2408989ad48a21492842087 =
     0x366726ad0e03e24d7ad6d8d091af896f"
  "gf128_mult 0xcea7403d4d606b6e074ec5d3baf39d18 0xdc95c078a2408989ad48a21492842087 =
     0xfd6ab7586e556dba06d69cfe6223b262"
  "gf128_mult 0xfd6ab7586e556dba06d69cfe6223b2e2 0xdc95c078a2408989ad48a21492842087 =
     0x83de425c5edc5d498f382c441041ca92"
  "gf128_mult 0x00000000000000000000000000000000 0xdc95c078a2408989ad48a21492842087 =
     0x00000000000000000000000000000000"
  by (simp_all add: gf128_mult_def gf128_mult_step_def upt_rec bit_0)

lemma shd_constant_source [simp]: "shd (constant_source x) = x"
  by (simp add: constant_source_def)

lemma stl_constant_source [simp]: "stl (constant_source x) = constant_source x"
  by (simp add: constant_source_def)

lemma stake_constant_source [simp]: "stake n (constant_source x) = replicate n x"
  by (induction n) simp_all

lemma sdrop_constant_source [simp]: "sdrop n (constant_source x) = constant_source x"
  by (induction n) simp_all

lemma replicate_numeral: "replicate (numeral n) x = x # replicate (pred_numeral n) x"
  by (simp add: numeral_eq_Suc)

lemma N0_replicate: "N0 = replicate 12 0"
  by (simp add: N0_def replicate_numeral)

lemma stake_12_zero: "stake 12 (constant_source 0) = N0"
  by (simp only: stake_constant_source N0_replicate)

lemmas gcm_eval = gcm_crypt_def gcm_tag_def gcm_j0_def gcm_hash_subkey_def ghash_def blocks16_def
  pad16_def inc32_def be_nat_def be_bytes_def xor_bytes_def gctr.simps upt_rec replicate_numeral

lemma gcm_crypt_K1_P0: "gcm_crypt K1 N0 P0 = C0"
  by (simp add: N0_def gcm_eval aes256_encrypt_block_K1 [unfolded K1_def] K1_def P0_def C0_def)

lemma gcm_tag_K1_C0: "gcm_tag K1 N0 C0 = T0"
  by (simp add: N0_def gcm_eval aes256_encrypt_block_K1 [unfolded K1_def] gf128_mult_K1 gf128_mult_K2 K1_def C0_def T0_def)


lemma gcm_tag_K2_C0: "gcm_tag K2 N0 C0 = T0"
  by (simp add: N0_def gcm_eval aes256_encrypt_block_K2 [unfolded K2_def] gf128_mult_K1 gf128_mult_K2 K2_def C0_def T0_def)

lemma gcm_crypt_K2_C0: "gcm_crypt K2 N0 C0 = P1"
  by (simp add: N0_def gcm_eval aes256_encrypt_block_K2 [unfolded K2_def] K2_def P1_def C0_def)

lemma gcm_crypt_K2_P0: "gcm_crypt K2 N0 P0 = W0C"
  by (simp add: N0_def gcm_eval aes256_encrypt_block_K2 [unfolded K2_def] K2_def P0_def W0C_def)

lemma gcm_tag_K2_W0C: "gcm_tag K2 N0 W0C = W0T"
  by (simp add: N0_def gcm_eval aes256_encrypt_block_K2 [unfolded K2_def] gf128_mult_K1 gf128_mult_K2 K2_def W0C_def W0T_def)

text \<open>
  Known answers: the example of FIPS 197, appendix C.3 (\<open>K1\<close> is its key), and test
  cases 13 and 14 of the GCM specification (\<open>K2\<close> and \<open>N0\<close> are their key and nonce).
\<close>

lemma aes256_known_answer:
  "aes256_encrypt_block K1 [0x00, 0x11, 0x22, 0x33, 0x44, 0x55, 0x66, 0x77, 0x88, 0x99, 0xaa, 0xbb, 0xcc, 0xdd, 0xee, 0xff] =
     [0x8e, 0xa2, 0xb7, 0xca, 0x51, 0x67, 0x45, 0xbf, 0xea, 0xfc, 0x49, 0x90, 0x4b, 0x49, 0x60, 0x89]"
  by (simp add: aes256_encrypt_block_K1)

lemma gcm_known_answers:
  "gcm_crypt K2 N0 [] = []"
  "gcm_tag K2 N0 [] = [0x53, 0x0f, 0x8a, 0xfb, 0xc7, 0x45, 0x36, 0xb9, 0xa9, 0x63, 0xb4, 0xf1, 0xc4, 0xcb, 0x73, 0x8b]"
  "gcm_crypt K2 N0 [0x00, 0x00, 0x00, 0x00, 0x00, 0x00, 0x00, 0x00, 0x00, 0x00, 0x00, 0x00, 0x00, 0x00, 0x00, 0x00] =
     [0xce, 0xa7, 0x40, 0x3d, 0x4d, 0x60, 0x6b, 0x6e, 0x07, 0x4e, 0xc5, 0xd3, 0xba, 0xf3, 0x9d, 0x18]"
  "gcm_tag K2 N0 [0xce, 0xa7, 0x40, 0x3d, 0x4d, 0x60, 0x6b, 0x6e, 0x07, 0x4e, 0xc5, 0xd3, 0xba, 0xf3, 0x9d, 0x18] =
     [0xd0, 0xd1, 0xc8, 0xa7, 0x99, 0x99, 0x6b, 0xf0, 0x26, 0x5b, 0x98, 0xb5, 0xd4, 0x8a, 0xb9, 0x19]"
  by (simp_all add: N0_def gcm_eval aes256_encrypt_block_K2 [unfolded K2_def] gf128_mult_K1 gf128_mult_K2 K2_def)

lemma lengths_concrete:
  "length K1 = 32" "length K2 = 32" "length N0 = 12" "length T0 = 16" "length W0T = 16"
  "length P0 = 32" "length C0 = 32"
  by (simp_all add: K1_def K2_def N0_def T0_def W0T_def P0_def C0_def)

lemma distinct_concrete: "K2 \<noteq> K1" "P1 \<noteq> P0" "W0T \<noteq> T0" "T0F \<noteq> T0"
  by (simp_all add: K1_def K2_def P0_def P1_def W0T_def T0_def T0F_def)


lemma encrypt_K1_P0: "encrypt P0 K1 (constant_source 0) = Inr (E0, constant_source 0)"
  by (simp add: encrypt_32 lengths_concrete stake_12_zero gcm_crypt_K1_P0 gcm_tag_K1_C0
      E0_def del: stake_constant_source)

lemma encrypt_K2_P0: "encrypt P0 K2 (constant_source 0) = Inr (W0, constant_source 0)"
  by (simp add: encrypt_32 lengths_concrete stake_12_zero gcm_crypt_K2_P0 gcm_tag_K2_W0C
      W0_def del: stake_constant_source)

lemma decrypt_E0_K2: "decrypt E0 K2 = Inr P1"
  by (simp add: decrypt_32 lengths_concrete E0_def gcm_tag_K2_C0 gcm_crypt_K2_C0)

lemma decrypt_W0_K2: "decrypt W0 K2 = Inr P0"
  using decrypt_encrypt(1) [OF lengths_concrete(2) encrypt_K2_P0] .

section \<open>Wrapping, rotation and tampering: auxiliary facts\<close>

lemma wrapDEK_32:
  "length kek = 32 \<Longrightarrow>
   wrapDEK dek kek g =
     Inr (\<lparr> ciphertext = gcm_crypt kek (stake 12 g) dek,
             nonce = stake 12 g,
             tag = gcm_tag kek (stake 12 g) (gcm_crypt kek (stake 12 g) dek) \<rparr>, sdrop 12 g)"
  by (simp add: wrapDEK_def encrypt_32)

lemma wrapDEK_error: "wrapDEK dek kek g = Inl e \<Longrightarrow> length kek \<noteq> 32 \<and> e = KeyLengthError"
  by (auto simp: wrapDEK_def encrypt_def randomBytes_def AES_KEY_SIZE_def split: if_splits)

lemma wrapDEK_bad_key: "length kek \<noteq> 32 \<Longrightarrow> wrapDEK dek kek g = Inl KeyLengthError"
  by (simp add: wrapDEK_def encrypt_def AES_KEY_SIZE_def)

lemma unwrapDEK_wrapDEK:
  assumes "length kek = 32" and "wrapDEK dek kek g = Inr (w, g')"
  shows "unwrapDEK w kek = Inr dek"
  using decrypt_encrypt(1) [of kek dek g w g'] assms by (simp add: wrapDEK_def unwrapDEK_def)

lemma rotateKEK_loop_acc:
  "rotateKEK_loop old_kek new_kek ws acc g =
     (case rotateKEK_loop old_kek new_kek ws [] g of
        Inl e \<Rightarrow> Inl e
      | Inr (rs, g') \<Rightarrow> Inr (acc @ rs, g'))"
proof (induction ws arbitrary: acc g)
  case Nil
  show ?case by simp
next
  case (Cons w ws)
  show ?case
  proof (cases "unwrapDEK w old_kek")
    case (Inl e)
    then show ?thesis by simp
  next
    case (Inr dek)
    show ?thesis
    proof (cases "wrapDEK dek new_kek g")
      case (Inl e)
      with Inr show ?thesis by simp
    next
      case (Inr r)
      obtain nw g1 where r: "r = (nw, g1)" by (cases r)
      have a: "rotateKEK_loop old_kek new_kek ws (acc @ [nw]) g1 =
          (case rotateKEK_loop old_kek new_kek ws [] g1 of
             Inl e \<Rightarrow> Inl e | Inr (rs, g') \<Rightarrow> Inr ((acc @ [nw]) @ rs, g'))"
        by (rule Cons.IH)
      have b: "rotateKEK_loop old_kek new_kek ws ([] @ [nw]) g1 =
          (case rotateKEK_loop old_kek new_kek ws [] g1 of
             Inl e \<Rightarrow> Inl e | Inr (rs, g') \<Rightarrow> Inr (([] @ [nw]) @ rs, g'))"
        by (rule Cons.IH)
      from \<open>unwrapDEK w old_kek = Inr dek\<close> Inr r a b show ?thesis
        by (simp split: sum.splits prod.splits)
    qed
  qed
qed

lemma rotateKEK_Nil: "rotateKEK old_kek new_kek [] g = Inr ([], g)"
  by (simp add: rotateKEK_def)

lemma rotateKEK_Cons:
  "rotateKEK old_kek new_kek (w # ws) g =
     (case unwrapDEK w old_kek of
        Inl e \<Rightarrow> Inl e
      | Inr dek \<Rightarrow>
          (case wrapDEK dek new_kek g of
             Inl e \<Rightarrow> Inl e
           | Inr (nw, g1) \<Rightarrow>
               (case rotateKEK old_kek new_kek ws g1 of
                  Inl e \<Rightarrow> Inl e
                | Inr (rs, g') \<Rightarrow> Inr (nw # rs, g'))))"
  by (simp add: rotateKEK_def rotateKEK_loop_acc [of _ _ ws "[_]"]
      split: sum.splits prod.splits)

lemma rotateKEK_all_unwrap:
  assumes "length old_kek = 32" and "length new_kek = 32"
    and "\<forall>w \<in> set ws. \<exists>d. unwrapDEK w old_kek = Inr d"
  shows "\<exists>rs. rotateKEK old_kek new_kek ws g = Inr (rs, sdrop (12 * length ws) g)
            \<and> list_all2 (\<lambda>w r. unwrapDEK r new_kek = unwrapDEK w old_kek) ws rs"
  using assms(3)
proof (induction ws arbitrary: g)
  case Nil
  show ?case by (simp add: rotateKEK_Nil)
next
  case (Cons w ws)
  from Cons.prems obtain d where d: "unwrapDEK w old_kek = Inr d" by auto
  obtain nw where nw: "wrapDEK d new_kek g = Inr (nw, sdrop 12 g)"
    using wrapDEK_32 [OF assms(2)] by blast
  have unw: "unwrapDEK nw new_kek = Inr d"
    using unwrapDEK_wrapDEK [OF assms(2) nw] .
  from Cons.IH [of "sdrop 12 g"] Cons.prems
  obtain rs where rs: "rotateKEK old_kek new_kek ws (sdrop 12 g) = Inr (rs, sdrop (12 * length ws) (sdrop 12 g))"
    and all: "list_all2 (\<lambda>w r. unwrapDEK r new_kek = unwrapDEK w old_kek) ws rs"
    by auto
  have "sdrop (12 * length ws) (sdrop 12 g) = sdrop (12 * length (w # ws)) g"
    by (simp add: sdrop_add)
  with d nw rs have "rotateKEK old_kek new_kek (w # ws) g = Inr (nw # rs, sdrop (12 * length (w # ws)) g)"
    by (simp add: rotateKEK_Cons)
  moreover have "list_all2 (\<lambda>w r. unwrapDEK r new_kek = unwrapDEK w old_kek) (w # ws) (nw # rs)"
    using all unw d by simp
  ultimately show ?case by blast
qed

lemma rewrap_items_rotateKEK:
  "rewrap_items old_kek new_kek items g =
     (case rotateKEK old_kek new_kek (map snd items) g of
        Inl e \<Rightarrow> Inl e
      | Inr (rs, g') \<Rightarrow> Inr (zip (map fst items) rs, g'))"
proof (induction items arbitrary: g)
  case Nil
  show ?case by (simp add: rotateKEK_Nil)
next
  case (Cons item items)
  obtain ident w where item: "item = (ident, w)" by (cases item)
  show ?case
    by (simp add: item rotateKEK_Cons Cons.IH split: sum.splits prod.splits)
qed

text \<open>
  \<open>rotateUserKEK\<close> is \<open>rotateKEK\<close> between the key derived from the old password and
  salt and the key derived from the new password with a fresh salt, the identifiers
  carried along.
\<close>

lemma rotateUserKEK_rotateKEK:
  "rotateUserKEK argon2 oldPassword newPassword oldSalt items g =
     (case deriveKEK argon2 oldPassword (Some oldSalt) g of
        Inl e \<Rightarrow> Inl e
      | Inr (old, g1) \<Rightarrow>
          (case deriveKEK argon2 newPassword None g1 of
             Inl e \<Rightarrow> Inl e
           | Inr (new, g2) \<Rightarrow>
               (case rotateKEK (KEKParams.key old) (KEKParams.key new) (map snd items) g2 of
                  Inl e \<Rightarrow> Inl e
                | Inr (rs, g3) \<Rightarrow>
                    Inr (\<lparr> newKEK = new, reWrappedDEKs = zip (map fst items) rs \<rparr>, g3))))"
  by (simp add: rotateUserKEK_def rewrap_items_rotateKEK split: sum.splits prod.splits)

lemma verifyKEK_wrapDEK:
  "length kek = 32 \<Longrightarrow> wrapDEK dek kek g = Inr (w, g') \<Longrightarrow> verifyKEK kek w"
  by (simp add: verifyKEK_def unwrapDEK_wrapDEK)



lemma encrypt_calls_32:
  assumes "length k = 32"
  shows "\<exists>es. encrypt_calls n p k g = Inr (es, sdrop (12 * n) g)
            \<and> map nonce es = map (\<lambda>i. stake 12 (sdrop (12 * i) g)) [0..<n]"
proof (induction n arbitrary: g)
  case 0
  show ?case by simp
next
  case (Suc n)
  from Suc [of "sdrop 12 g"] obtain es
    where es: "encrypt_calls n p k (sdrop 12 g) = Inr (es, sdrop (12 * n) (sdrop 12 g))"
      and ns: "map nonce es = map (\<lambda>i. stake 12 (sdrop (12 * i) (sdrop 12 g))) [0..<n]"
    by blast
  have g: "sdrop (12 * n) (sdrop 12 g) = sdrop (12 * Suc n) g"
    by (simp add: sdrop_add)
  have "map (\<lambda>i. stake 12 (sdrop (12 * i) g)) [0..<Suc n]
      = stake 12 g # map (\<lambda>i. stake 12 (sdrop (12 * Suc i) g)) [0..<n]"
    by (simp only: upt_conv_Cons [of 0 "Suc n"] map_Suc_upt [symmetric] list.map map_map comp_def)
       simp
  also have "\<dots> = stake 12 g # map (\<lambda>i. stake 12 (sdrop (12 * i) (sdrop 12 g))) [0..<n]"
    by (simp add: sdrop_add add.commute)
  finally have m: "map (\<lambda>i. stake 12 (sdrop (12 * i) g)) [0..<Suc n]
      = stake 12 g # map nonce es"
    using ns by simp
  show ?case
    using es g m by (simp add: encrypt_32 [OF assms])
qed

section \<open>Recovery codes and key derivation: auxiliary facts\<close>








lemma deriveKEK_Some:
  "deriveKEK argon2 pw (Some s) g =
     (case hash_raw argon2 kek_options pw s of
        Inl e \<Rightarrow> Inl e
      | Inr h \<Rightarrow> Inr (\<lparr> KEKParams.key = h, salt = s \<rparr>, g))"
  by (simp add: deriveKEK_def)

lemma deriveKEK_None:
  "deriveKEK argon2 pw None g =
     (case hash_raw argon2 kek_options pw (stake 16 g) of
        Inl e \<Rightarrow> Inl e
      | Inr h \<Rightarrow> Inr (\<lparr> KEKParams.key = h, salt = stake 16 g \<rparr>, sdrop 16 g))"
  by (simp add: deriveKEK_def randomBytes_def SALT_SIZE_def)

lemma card_strings_33: "card {pw :: string. length pw = 33} = 256 ^ 33"
  using card_lists_length_eq [of "UNIV :: char set" 33] by (simp add: card_UNIV_char)

lemma card_buffers_32: "card {h :: buffer. length h = 32} = 256 ^ 32"
  using card_lists_length_eq [of "UNIV :: byte set" 32] by (simp add: card_word)

lemma finite_buffers_32: "finite {h :: buffer. length h = 32}"
  using finite_lists_length_eq [of "UNIV :: byte set" 32] by simp

section \<open>Serialization\<close>

text \<open>
  C9. \<open>serializeEncrypted\<close> is exactly nonce, then ciphertext, then tag, with nothing
  else in the output (no length prefix: the output is as long as the three parts
  together), and an \<open>EncryptedData\<close> whose nonce is 12 bytes and whose tag is 16 bytes
  is read back unchanged by \<open>deserializeEncrypted\<close>.
\<close>

theorem serializeEncrypted_roundtrip:
  assumes "length (nonce e) = 12" and "length (tag e) = 16"
  shows "serializeEncrypted e = nonce e @ ciphertext e @ tag e
       \<and> length (serializeEncrypted e) = 12 + length (ciphertext e) + 16
       \<and> deserializeEncrypted (serializeEncrypted e) = Inr e"
  using assms
  by (simp add: serializeEncrypted_def deserializeEncrypted_def subarray_def
      AES_NONCE_SIZE_def AES_TAG_SIZE_def)

theorem serializeEncrypted_roundtrip_witness:
  "length (nonce \<lparr> ciphertext = [7, 8, 9], nonce = replicate 12 1, tag = replicate 16 2 \<rparr>) = 12
   \<and> length (tag \<lparr> ciphertext = [7, 8, 9], nonce = replicate 12 1, tag = replicate 16 2 \<rparr>) = 16
   \<and> deserializeEncrypted
        (serializeEncrypted \<lparr> ciphertext = [7, 8, 9], nonce = replicate 12 1, tag = replicate 16 2 \<rparr>)
      = Inr \<lparr> ciphertext = [7, 8, 9], nonce = replicate 12 1, tag = replicate 16 2 \<rparr>"
  using serializeEncrypted_roundtrip
    [of "\<lparr> ciphertext = [7, 8, 9], nonce = replicate 12 1, tag = replicate 16 2 \<rparr>"]
  by (simp add: serializeEncrypted_def)

text \<open>
  C10. A buffer shorter than 28 bytes is rejected with the invalid-format error and no
  structure is returned; a buffer of at least 28 bytes is accepted, its first 12 bytes
  are the nonce, its last 16 bytes the tag and what lies between the ciphertext, which
  is empty for a 28-byte input.
\<close>

theorem deserializeEncrypted_guard:
  "(length data < 28 \<longrightarrow> deserializeEncrypted data = Inl InvalidFormat)
   \<and> (28 \<le> length data \<longrightarrow>
        deserializeEncrypted data =
          Inr \<lparr> ciphertext = take (length data - 28) (drop 12 data),
                nonce = take 12 data,
                tag = drop (length data - 16) data \<rparr>)
   \<and> (length data = 28 \<longrightarrow>
        (\<exists>e. deserializeEncrypted data = Inr e \<and> ciphertext e = []))"
  by (simp add: deserializeEncrypted_def subarray_def AES_NONCE_SIZE_def AES_TAG_SIZE_def)

theorem deserializeEncrypted_guard_witness:
  "length (replicate 27 (0::byte)) < 28
   \<and> deserializeEncrypted (replicate 27 0) = Inl InvalidFormat
   \<and> 28 \<le> length (replicate 12 (1::byte) @ [5] @ replicate 16 2)
   \<and> deserializeEncrypted (replicate 12 1 @ [5] @ replicate 16 2)
       = Inr \<lparr> ciphertext = [5], nonce = replicate 12 1, tag = replicate 16 2 \<rparr>
   \<and> length (replicate 12 (1::byte) @ replicate 16 2) = 28
   \<and> deserializeEncrypted (replicate 12 1 @ replicate 16 2)
       = Inr \<lparr> ciphertext = [], nonce = replicate 12 1, tag = replicate 16 2 \<rparr>"
  using deserializeEncrypted_guard [of "replicate 27 0"]
    deserializeEncrypted_guard [of "replicate 12 1 @ [5] @ replicate 16 2"]
    deserializeEncrypted_guard [of "replicate 12 1 @ replicate 16 2"]
  by simp

section \<open>Round trip of encryption and of key wrapping\<close>

text \<open>
  C1. Under every 32-byte key \<open>k\<close> and for every byte string \<open>p\<close>, \<open>encrypt\<close> succeeds
  and \<open>decrypt\<close> gives \<open>p\<close> back from its result, whatever nonce the random source
  supplies; \<open>unwrapDEK\<close> gives back what \<open>wrapDEK\<close> wrapped under the same key; and
  \<open>generateWrappedDEK\<close> returns a 32-byte key together with a wrapped form that unwraps
  to it.
\<close>

theorem aead_envelope_roundtrip:
  assumes "length k = 32"
  shows "(\<exists>e g'. encrypt p k g = Inr (e, g') \<and> decrypt e k = Inr p)
       \<and> (\<exists>w g'. wrapDEK dek k g = Inr (w, g') \<and> unwrapDEK w k = Inr dek)
       \<and> (\<exists>d g'. generateWrappedDEK k g = Inr (d, g')
              \<and> unwrapDEK (wrapped d) k = Inr (DEK.key d) \<and> length (DEK.key d) = 32)"
proof (intro conjI)
  obtain e where e: "encrypt p k g = Inr (e, sdrop 12 g)"
    using encrypt_32 [OF assms] by blast
  with decrypt_encrypt(1) [OF assms e]
  show "\<exists>e g'. encrypt p k g = Inr (e, g') \<and> decrypt e k = Inr p" by blast
  obtain w where w: "wrapDEK dek k g = Inr (w, sdrop 12 g)"
    using wrapDEK_32 [OF assms] by blast
  with unwrapDEK_wrapDEK [OF assms w]
  show "\<exists>w g'. wrapDEK dek k g = Inr (w, g') \<and> unwrapDEK w k = Inr dek" by blast
  obtain d1 g1 where g1: "generateDEK g = (d1, g1)" by (cases "generateDEK g")
  then have l: "length d1 = 32"
    by (auto simp: generateDEK_def randomBytes_def AES_KEY_SIZE_def)
  obtain w1 where w1: "wrapDEK d1 k g1 = Inr (w1, sdrop 12 g1)"
    using wrapDEK_32 [OF assms] by blast
  have "generateWrappedDEK k g = Inr (\<lparr> DEK.key = d1, wrapped = w1 \<rparr>, sdrop 12 g1)"
    by (simp add: generateWrappedDEK_def g1 w1)
  moreover have "unwrapDEK (wrapped \<lparr> DEK.key = d1, wrapped = w1 \<rparr>) k
      = Inr (DEK.key \<lparr> DEK.key = d1, wrapped = w1 \<rparr>)"
    using unwrapDEK_wrapDEK [OF assms w1] by simp
  ultimately show "\<exists>d g'. generateWrappedDEK k g = Inr (d, g')
      \<and> unwrapDEK (wrapped d) k = Inr (DEK.key d) \<and> length (DEK.key d) = 32"
    using l by auto
qed

theorem aead_envelope_roundtrip_witness:
  "length K1 = 32
   \<and> encrypt P0 K1 (constant_source 0) = Inr (E0, constant_source 0)
   \<and> decrypt E0 K1 = Inr P0"
proof -
  from aead_envelope_roundtrip [OF lengths_concrete(1), of P0 "constant_source 0"]
  obtain e g' where "encrypt P0 K1 (constant_source 0) = Inr (e, g')" and "decrypt e K1 = Inr P0"
    by blast
  with encrypt_K1_P0 have "decrypt E0 K1 = Inr P0" by simp
  with encrypt_K1_P0 lengths_concrete(1) show ?thesis by simp
qed

section \<open>Tampering and wrong keys\<close>




section \<open>Nonces\<close>

text \<open>
  C6, as the code has it. \<open>encrypt\<close> takes no nonce from its caller: under a 32-byte
  key it draws the next 12 bytes (96 bits) of the random source and uses them as the
  nonce. In \<open>n\<close> calls in a row the nonces are the first \<open>n\<close> groups of 12 bytes of the
  source, so they are pairwise different exactly when these groups are, and two calls
  with the same plaintext and key return the same result exactly when they drew the same
  nonce. Nothing in the code compares a nonce with an earlier one.
\<close>

theorem encrypt_nonce_from_random_source:
  assumes "length k = 32"
  shows "(\<exists>e1 e2. encrypt p k g = Inr (e1, sdrop 12 g)
            \<and> encrypt p k (sdrop 12 g) = Inr (e2, sdrop 12 (sdrop 12 g))
            \<and> nonce e1 = stake 12 g \<and> length (nonce e1) = 12
            \<and> nonce e2 = stake 12 (sdrop 12 g) \<and> length (nonce e2) = 12
            \<and> (e1 = e2 \<longleftrightarrow> nonce e1 = nonce e2))
       \<and> (\<exists>es. encrypt_calls n p k g = Inr (es, sdrop (12 * n) g)
            \<and> length es = n
            \<and> map nonce es = map (\<lambda>i. stake 12 (sdrop (12 * i) g)) [0..<n]
            \<and> (distinct (map nonce es)
                 \<longleftrightarrow> distinct (map (\<lambda>i. stake 12 (sdrop (12 * i) g)) [0..<n])))"
proof (intro conjI)
  show "\<exists>e1 e2. encrypt p k g = Inr (e1, sdrop 12 g)
            \<and> encrypt p k (sdrop 12 g) = Inr (e2, sdrop 12 (sdrop 12 g))
            \<and> nonce e1 = stake 12 g \<and> length (nonce e1) = 12
            \<and> nonce e2 = stake 12 (sdrop 12 g) \<and> length (nonce e2) = 12
            \<and> (e1 = e2 \<longleftrightarrow> nonce e1 = nonce e2)"
    by (auto simp: encrypt_32 [OF assms])
  from encrypt_calls_32 [OF assms, of n p g] obtain es
    where es: "encrypt_calls n p k g = Inr (es, sdrop (12 * n) g)"
      and ns: "map nonce es = map (\<lambda>i. stake 12 (sdrop (12 * i) g)) [0..<n]"
    by blast
  from ns have "length (map nonce es) = length (map (\<lambda>i. stake 12 (sdrop (12 * i) g)) [0..<n])"
    by simp
  then have "length es = n" by simp
  with es ns show "\<exists>es. encrypt_calls n p k g = Inr (es, sdrop (12 * n) g)
            \<and> length es = n
            \<and> map nonce es = map (\<lambda>i. stake 12 (sdrop (12 * i) g)) [0..<n]
            \<and> (distinct (map nonce es)
                 \<longleftrightarrow> distinct (map (\<lambda>i. stake 12 (sdrop (12 * i) g)) [0..<n]))"
    by auto
qed

theorem encrypt_nonce_from_random_source_witness:
  "length K1 = 32
   \<and> encrypt P0 K1 (constant_source 0) = Inr (E0, sdrop 12 (constant_source 0))
   \<and> nonce E0 = stake 12 (constant_source 0)
   \<and> length (nonce E0) = 12"
proof -
  from encrypt_nonce_from_random_source [OF lengths_concrete(1), of P0 "constant_source 0" 0]
  obtain e1 where "encrypt P0 K1 (constant_source 0) = Inr (e1, sdrop 12 (constant_source 0))"
    and "nonce e1 = stake 12 (constant_source 0)" and "length (nonce e1) = 12"
    by blast
  moreover have "encrypt P0 K1 (constant_source 0) = Inr (E0, sdrop 12 (constant_source 0))"
    using encrypt_K1_P0 by simp
  ultimately show ?thesis
    using lengths_concrete(1) by simp
qed

text \<open>
  C6 as stated fails when the random source repeats itself: if it supplies zeros only,
  two calls of \<open>encrypt\<close> in a row with the same plaintext and key use the same nonce and
  return the same result.
\<close>

theorem encrypt_repeats_counterexample:
  "encrypt P0 K1 (constant_source 0) = Inr (E0, sdrop 12 (constant_source 0))
   \<and> encrypt P0 K1 (sdrop 12 (constant_source 0)) = Inr (E0, sdrop 12 (sdrop 12 (constant_source 0)))
   \<and> encrypt_calls 2 P0 K1 (constant_source 0) = Inr ([E0, E0], sdrop 24 (constant_source 0))"
proof -
  have "encrypt_calls (Suc (Suc 0)) P0 K1 (constant_source 0) = Inr ([E0, E0], constant_source 0)"
    by (simp add: encrypt_K1_P0)
  then have "encrypt_calls 2 P0 K1 (constant_source 0) = Inr ([E0, E0], constant_source 0)"
    by (simp only: numeral_2_eq_2)
  with encrypt_K1_P0 show ?thesis
    by simp
qed

section \<open>Key rotation\<close>

text \<open>
  C3, as the code has it. For 32-byte keys \<open>old_kek\<close> and \<open>new_kek\<close> and a list of \<open>N\<close>
  wrapped keys that unwrap under \<open>old_kek\<close>, \<open>rotateKEK\<close> returns a list of \<open>N\<close> wrapped
  keys in the same order, the \<open>i\<close>-th of which unwraps under \<open>new_kek\<close> to what the
  \<open>i\<close>-th input unwrapped to under \<open>old_kek\<close>. The function reads and writes wrapped keys
  only (item ciphertext is not among its arguments), and it draws one 12-byte nonce,
  for one wrap, per item.
\<close>

theorem rotateKEK_correct:
  assumes "length old_kek = 32" and "length new_kek = 32"
    and "\<forall>w \<in> set ws. \<exists>d. unwrapDEK w old_kek = Inr d"
  shows "\<exists>rs. rotateKEK old_kek new_kek ws g = Inr (rs, sdrop (12 * length ws) g)
            \<and> length rs = length ws
            \<and> (\<forall>i < length ws. unwrapDEK (rs ! i) new_kek = unwrapDEK (ws ! i) old_kek)"
proof -
  from rotateKEK_all_unwrap [OF assms, of g] obtain rs
    where r: "rotateKEK old_kek new_kek ws g = Inr (rs, sdrop (12 * length ws) g)"
      and a: "list_all2 (\<lambda>w r. unwrapDEK r new_kek = unwrapDEK w old_kek) ws rs"
    by blast
  from a have "length rs = length ws"
    by (simp add: list_all2_lengthD)
  moreover from a have "\<forall>i < length ws. unwrapDEK (rs ! i) new_kek = unwrapDEK (ws ! i) old_kek"
    by (simp add: list_all2_conv_all_nth)
  ultimately show ?thesis using r by blast
qed

theorem rotateKEK_correct_witness:
  "length K2 = 32 \<and> length K1 = 32
   \<and> unwrapDEK W0 K2 = Inr P0
   \<and> rotateKEK K2 K1 [W0] (constant_source 0) = Inr ([E0], constant_source 0)
   \<and> unwrapDEK E0 K1 = Inr P0"
proof -
  have u: "unwrapDEK W0 K2 = Inr P0"
    using decrypt_W0_K2 by (simp add: unwrapDEK_def)
  then have "\<forall>w \<in> set [W0]. \<exists>d. unwrapDEK w K2 = Inr d" by simp
  from rotateKEK_correct [OF lengths_concrete(2) lengths_concrete(1) this, of "constant_source 0"]
  obtain rs where r: "rotateKEK K2 K1 [W0] (constant_source 0) = Inr (rs, sdrop (12 * length [W0]) (constant_source 0))"
    and n: "\<forall>i < length [W0]. unwrapDEK (rs ! i) K1 = unwrapDEK ([W0] ! i) K2"
    by blast
  have e: "rotateKEK K2 K1 [W0] (constant_source 0) = Inr ([E0], constant_source 0)"
    using u encrypt_K1_P0 by (simp add: rotateKEK_Cons rotateKEK_Nil wrapDEK_def)
  with r have "rs = [E0]" by simp
  with n u have "unwrapDEK E0 K1 = Inr P0" by simp
  with u e lengths_concrete(1,2) show ?thesis by simp
qed

text \<open>
  C3 as stated fails in its last part: a rotated key can unwrap under the old key. The
  key \<open>P0\<close> is wrapped under \<open>K2\<close> as \<open>W0\<close>; rotating from \<open>K2\<close> to the different key \<open>K1\<close>
  gives \<open>E0\<close>, and \<open>E0\<close> still unwraps under \<open>K2\<close>, to the bytes \<open>P1\<close>.
\<close>

theorem rotateKEK_old_key_counterexample:
  "length K2 = 32 \<and> length K1 = 32 \<and> K2 \<noteq> K1
   \<and> unwrapDEK W0 K2 = Inr P0
   \<and> rotateKEK K2 K1 [W0] (constant_source 0) = Inr ([E0], constant_source 0)
   \<and> unwrapDEK E0 K2 = Inr P1"
proof -
  have u: "unwrapDEK W0 K2 = Inr P0"
    using decrypt_W0_K2 by (simp add: unwrapDEK_def)
  have "rotateKEK K2 K1 [W0] (constant_source 0) = Inr ([E0], constant_source 0)"
    using u encrypt_K1_P0 by (simp add: rotateKEK_Cons rotateKEK_Nil wrapDEK_def)
  moreover have "unwrapDEK E0 K2 = Inr P1"
    using decrypt_E0_K2 by (simp add: unwrapDEK_def)
  ultimately show ?thesis
    using u lengths_concrete(1,2) distinct_concrete(1) by simp
qed

text \<open>
  C5, as the code has it. If \<open>unwrapDEK\<close> under \<open>old_kek\<close> fails for any item of the
  list, \<open>rotateKEK\<close> returns an error and no list at all, however many items it had
  re-wrapped before. The error is the one of the step that failed: the error of a
  failing unwrap (\<open>DecryptionFailed\<close> from \<open>decrypt\<close>, or a key-length, nonce or
  tag-length error), or the key-length error of \<open>wrapDEK\<close> when \<open>new_kek\<close> is not 32
  bytes. The code wraps it in nothing and has no error of its own for a failed rotation.
\<close>

theorem rotateKEK_aborts:
  assumes "\<exists>w \<in> set ws. \<exists>e. unwrapDEK w old_kek = Inl e"
  shows "\<exists>e. rotateKEK old_kek new_kek ws g = Inl e
            \<and> ((\<exists>w \<in> set ws. unwrapDEK w old_kek = Inl e)
                 \<or> (length new_kek \<noteq> 32 \<and> e = KeyLengthError))"
  using assms
proof (induction ws arbitrary: g)
  case Nil
  then show ?case by simp
next
  case (Cons w ws)
  show ?case
  proof (cases "unwrapDEK w old_kek")
    case (Inl e)
    then show ?thesis by (auto simp: rotateKEK_Cons)
  next
    case (Inr dek)
    with Cons.prems have rest: "\<exists>w \<in> set ws. \<exists>e. unwrapDEK w old_kek = Inl e" by auto
    show ?thesis
    proof (cases "wrapDEK dek new_kek g")
      case (Inl e)
      with wrapDEK_error [OF Inl] Inr show ?thesis by (simp add: rotateKEK_Cons)
    next
      case r: (Inr r)
      obtain nw g1 where "r = (nw, g1)" by (cases r)
      with Cons.IH [OF rest, of g1] Inr r show ?thesis
        by (auto simp: rotateKEK_Cons)
    qed
  qed
qed

theorem rotateKEK_aborts_witness:
  "unwrapDEK W0 K2 = Inr P0
   \<and> unwrapDEK (E0\<lparr>tag := W0T\<rparr>) K2 = Inl DecryptionFailed
   \<and> rotateKEK K2 K1 [W0, E0\<lparr>tag := W0T\<rparr>] (constant_source 0) = Inl DecryptionFailed"
proof -
  have u: "unwrapDEK W0 K2 = Inr P0"
    using decrypt_W0_K2 by (simp add: unwrapDEK_def)
  have b: "unwrapDEK (E0\<lparr>tag := W0T\<rparr>) K2 = Inl DecryptionFailed"
    using distinct_concrete(3)
    by (simp add: unwrapDEK_def decrypt_32 lengths_concrete E0_def gcm_tag_K2_C0)
  then have "\<exists>w \<in> set [W0, E0\<lparr>tag := W0T\<rparr>]. \<exists>e. unwrapDEK w K2 = Inl e" by simp
  from rotateKEK_aborts [OF this, of K1 "constant_source 0"] u b lengths_concrete(1)
  have "rotateKEK K2 K1 [W0, E0\<lparr>tag := W0T\<rparr>] (constant_source 0) = Inl DecryptionFailed"
    by auto
  with u b show ?thesis by simp
qed

text \<open>
  C5 as stated names an error of its own for a failed rotation. There is none: when the
  second item fails to authenticate, \<open>rotateKEK\<close> ends with the very value \<open>decrypt\<close>
  returned, and when the old key has 31 bytes it ends with the key-length error.
\<close>

theorem rotateKEK_error_counterexample:
  "decrypt (E0\<lparr>tag := W0T\<rparr>) K2 = Inl DecryptionFailed
   \<and> rotateKEK K2 K1 [W0, E0\<lparr>tag := W0T\<rparr>] (constant_source 0) = Inl DecryptionFailed
   \<and> rotateKEK (take 31 K2) K1 [W0] (constant_source 0) = Inl KeyLengthError"
proof -
  have u: "unwrapDEK W0 K2 = Inr P0"
    using decrypt_W0_K2 by (simp add: unwrapDEK_def)
  have b: "decrypt (E0\<lparr>tag := W0T\<rparr>) K2 = Inl DecryptionFailed"
    using distinct_concrete(3)
    by (simp add: decrypt_32 lengths_concrete E0_def gcm_tag_K2_C0)
  have "rotateKEK K2 K1 [W0, E0\<lparr>tag := W0T\<rparr>] (constant_source 0) = Inl DecryptionFailed"
    using u b encrypt_K1_P0 by (simp add: rotateKEK_Cons wrapDEK_def unwrapDEK_def)
  moreover have "rotateKEK (take 31 K2) K1 [W0] (constant_source 0) = Inl KeyLengthError"
    using lengths_concrete(2)
    by (simp add: rotateKEK_Cons unwrapDEK_def decrypt_def AES_KEY_SIZE_def)
  ultimately show ?thesis using b by simp
qed

section \<open>Key derivation\<close>

text \<open>
  C4, as the code has it. With a salt supplied, \<open>deriveKEK\<close> returns the library's raw
  hash of the secret under that salt, together with the salt: the result does not depend
  on the random source, which is left untouched, so the same secret and salt always give
  the same key. With the salt omitted, the next 16 bytes (128 bits) of the random source
  are the salt, and they are returned with the key. Where the library returns as many
  bytes as \<open>hashLength\<close> asks for, the key is 32 bytes (256 bits).
\<close>

theorem deriveKEK_deterministic:
  assumes "\<forall>opts pw s h. hash_raw argon2 opts pw s = Inr h \<longrightarrow> length h = hashLength opts"
  shows "deriveKEK argon2 pw (Some s) g
          = map_sum id (\<lambda>h. (\<lparr> KEKParams.key = h, salt = s \<rparr>, g)) (hash_raw argon2 kek_options pw s)
       \<and> (\<forall>g'. map_sum id fst (deriveKEK argon2 pw (Some s) g')
                = map_sum id fst (deriveKEK argon2 pw (Some s) g))
       \<and> deriveKEK argon2 pw None g
          = map_sum id (\<lambda>h. (\<lparr> KEKParams.key = h, salt = stake 16 g \<rparr>, sdrop 16 g))
              (hash_raw argon2 kek_options pw (stake 16 g))
       \<and> length (stake 16 g) = 16
       \<and> (\<forall>so kp g'. deriveKEK argon2 pw so g = Inr (kp, g') \<longrightarrow> length (KEKParams.key kp) = 32)"
proof (intro conjI allI impI)
  show "deriveKEK argon2 pw (Some s) g
      = map_sum id (\<lambda>h. (\<lparr> KEKParams.key = h, salt = s \<rparr>, g)) (hash_raw argon2 kek_options pw s)"
    by (simp add: deriveKEK_Some split: sum.splits)
  show "map_sum id fst (deriveKEK argon2 pw (Some s) g')
      = map_sum id fst (deriveKEK argon2 pw (Some s) g)" for g'
    by (simp add: deriveKEK_Some split: sum.splits)
  show "deriveKEK argon2 pw None g
      = map_sum id (\<lambda>h. (\<lparr> KEKParams.key = h, salt = stake 16 g \<rparr>, sdrop 16 g))
          (hash_raw argon2 kek_options pw (stake 16 g))"
    by (simp add: deriveKEK_None split: sum.splits)
  show "length (stake 16 g) = 16" by simp
  show "length (KEKParams.key kp) = 32" if "deriveKEK argon2 pw so g = Inr (kp, g')" for so kp g'
  proof -
    from that obtain s' where "hash_raw argon2 kek_options pw s' = Inr (KEKParams.key kp)"
      by (cases so) (auto simp: deriveKEK_Some deriveKEK_None split: sum.splits)
    with assms have "length (KEKParams.key kp) = hashLength kek_options" by blast
    then show ?thesis by (simp add: kek_options_def ARGON2_KEY_LENGTH_def)
  qed
qed

theorem deriveKEK_deterministic_witness:
  "hash_raw toy_argon2 kek_options ''pw'' (replicate 16 7)
       = Inr ([112, 119] @ replicate 16 7 @ replicate 14 0)
   \<and> length ([112, 119] @ replicate 16 7 @ replicate 14 (0::byte)) = hashLength kek_options
   \<and> deriveKEK toy_argon2 ''pw'' (Some (replicate 16 7)) (constant_source 0)
       = Inr (\<lparr> KEKParams.key = [112, 119] @ replicate 16 7 @ replicate 14 0,
                salt = replicate 16 7 \<rparr>, constant_source 0)
   \<and> deriveKEK toy_argon2 ''pw'' (Some (replicate 16 7)) (constant_source 1)
       = Inr (\<lparr> KEKParams.key = [112, 119] @ replicate 16 7 @ replicate 14 0,
                salt = replicate 16 7 \<rparr>, constant_source 1)"
proof -
  have lib: "\<forall>opts pw s h. hash_raw toy_argon2 opts pw s = Inr h \<longrightarrow> length h = hashLength opts"
    by (auto simp: toy_argon2_def split: if_splits)
  have h: "hash_raw toy_argon2 kek_options ''pw'' (replicate 16 7)
      = Inr ([112, 119] @ replicate 16 7 @ replicate 14 0)"
    by (simp add: toy_argon2_def kek_options_def ARGON2_KEY_LENGTH_def replicate_numeral)
  from deriveKEK_deterministic [OF lib, of "''pw''" "replicate 16 7" "constant_source 0"]
    deriveKEK_deterministic [OF lib, of "''pw''" "replicate 16 7" "constant_source 1"] h
  show ?thesis by (simp add: kek_options_def ARGON2_KEY_LENGTH_def)
qed

text \<open>
  C4 as stated also says that different secrets give different keys. No hash with a
  32-byte result can do that: whatever the library computes, as long as it accepts every
  33-character secret with the salt of 16 zero bytes, two different such secrets give
  the same key. (With the salt and the random source fixed, two results of \<open>deriveKEK\<close>
  differ exactly when their keys do.)
\<close>

theorem deriveKEK_collision_counterexample:
  "\<not> (\<exists>argon2.
        (\<forall>pw. length pw = 33 \<longrightarrow>
           (\<exists>h. hash_raw argon2 kek_options pw (replicate 16 0) = Inr h \<and> length h = 32))
      \<and> (\<forall>pw pw'. length pw = 33 \<and> length pw' = 33 \<and> pw \<noteq> pw' \<longrightarrow>
           deriveKEK argon2 pw (Some (replicate 16 0)) (constant_source 0)
             \<noteq> deriveKEK argon2 pw' (Some (replicate 16 0)) (constant_source 0)))"
proof
  assume "\<exists>argon2.
        (\<forall>pw. length pw = 33 \<longrightarrow>
           (\<exists>h. hash_raw argon2 kek_options pw (replicate 16 0) = Inr h \<and> length h = 32))
      \<and> (\<forall>pw pw'. length pw = 33 \<and> length pw' = 33 \<and> pw \<noteq> pw' \<longrightarrow>
           deriveKEK argon2 pw (Some (replicate 16 0)) (constant_source 0)
             \<noteq> deriveKEK argon2 pw' (Some (replicate 16 0)) (constant_source 0))"
  then obtain argon2
    where tot: "\<And>pw. length pw = 33 \<Longrightarrow>
        \<exists>h. hash_raw argon2 kek_options pw (replicate 16 0) = Inr h \<and> length h = 32"
      and inj: "\<And>pw pw'. length pw = 33 \<Longrightarrow> length pw' = 33 \<Longrightarrow> pw \<noteq> pw' \<Longrightarrow>
        deriveKEK argon2 pw (Some (replicate 16 0)) (constant_source 0)
          \<noteq> deriveKEK argon2 pw' (Some (replicate 16 0)) (constant_source 0)"
    by blast
  define f where "f pw = projr (hash_raw argon2 kek_options pw (replicate 16 0))" for pw
  have val: "hash_raw argon2 kek_options pw (replicate 16 0) = Inr (f pw) \<and> length (f pw) = 32"
    if "length pw = 33" for pw
    using tot [OF that] by (auto simp: f_def)
  have "inj_on f {pw. length pw = 33}"
  proof (rule inj_onI)
    fix pw pw'
    assume a: "pw \<in> {pw. length pw = 33}" "pw' \<in> {pw. length pw = 33}" "f pw = f pw'"
    show "pw = pw'"
    proof (rule ccontr)
      assume "pw \<noteq> pw'"
      with a inj [of pw pw'] val [of pw] val [of pw'] show False
        by (simp add: deriveKEK_Some)
    qed
  qed
  moreover have "f ` {pw. length pw = 33} \<subseteq> {h. length h = 32}"
    using val by auto
  ultimately have "card {pw :: string. length pw = 33} \<le> card {h :: buffer. length h = 32}"
    using finite_buffers_32 by (rule card_inj_on_le)
  then show False
    by (simp add: card_strings_33 card_buffers_32)
qed

section \<open>Recovery codes\<close>




text \<open>
  C7. \<open>argon2.verify\<close> resolves to \<open>false\<close> for a code that does not match and rejects
  only a digest it cannot read. For a library that resolves on every digest it produced
  itself, \<open>verifyRecoveryCode\<close> returns \<open>true\<close> for the hash of a code and \<^emph>\<open>every\<close> code
  offered against it, the right one and any wrong one alike, because it does not read
  what \<open>argon2.verify\<close> resolved to; and \<open>verifyRecoveryCodeAgainstArray\<close> then reports a
  match at the first hash.
\<close>

theorem verifyRecoveryCode_accepts_any_code:
  assumes "\<forall>opts c s h c'. hash_encoded argon2 opts c s = Inr h \<longrightarrow>
             (\<exists>matched. verify_encoded argon2 h c' = Inr matched)"
    and "hashRecoveryCode argon2 code g = Inr (h, g')"
  shows "verifyRecoveryCode argon2 code h = True
       \<and> (\<forall>wrongCode. verifyRecoveryCode argon2 wrongCode h = True)
       \<and> (\<forall>wrongCode hashes.
             verifyRecoveryCodeAgainstArray argon2 wrongCode (h # hashes) = Some 0)"
proof -
  from assms(2) obtain s where "hash_encoded argon2 recovery_options code s = Inr h"
    by (auto simp: hashRecoveryCode_def randomBytes_def split: sum.splits)
  with assms(1) have r: "\<exists>matched. verify_encoded argon2 h c' = Inr matched" for c'
    by blast
  have "verifyRecoveryCode argon2 c' h = True" for c'
    using r [of c'] by (auto simp: verifyRecoveryCode_def)
  then show ?thesis
    by (simp add: verifyRecoveryCodeAgainstArray_def)
qed

theorem verifyRecoveryCode_accepts_any_code_witness:
  "hashRecoveryCode toy_argon2 ''TEST1234'' (constant_source 0) = Inr (''$argon2id$TEST1234'', constant_source 0)
   \<and> verify_encoded toy_argon2 ''$argon2id$TEST1234'' ''WRONG12'' = Inr False
   \<and> verifyRecoveryCode toy_argon2 ''WRONG12'' ''$argon2id$TEST1234'' = True"
proof -
  have lib: "\<forall>opts c s h c'. hash_encoded toy_argon2 opts c s = Inr h \<longrightarrow>
       (\<exists>matched. verify_encoded toy_argon2 h c' = Inr matched)"
    by (auto simp: toy_argon2_def)
  have h: "hashRecoveryCode toy_argon2 ''TEST1234'' (constant_source 0) = Inr (''$argon2id$TEST1234'', constant_source 0)"
    by (simp add: hashRecoveryCode_def randomBytes_def toy_argon2_def)
  have v: "verify_encoded toy_argon2 ''$argon2id$TEST1234'' ''WRONG12'' = Inr False"
    by (simp add: toy_argon2_def)
  from verifyRecoveryCode_accepts_any_code [OF lib h]
  have "verifyRecoveryCode toy_argon2 ''WRONG12'' ''$argon2id$TEST1234'' = True"
    by blast
  with h v show ?thesis by blast
qed

end
